theory Spec2Isabelle
  imports Complex_Main "HOL-Library.Multiset"
begin

section \<open>Interaction counter (models/interaction\_counter.py)\<close>

text \<open>
  The counter document of the collection \<open>interaction_counters\<close> and the in-process
  fields of \<open>InteractionCounter\<close>.  Python integers are unbounded, hence \<open>int\<close>.
  The timestamps \<open>last_updated\<close>, \<open>last_reset\<close> and \<open>created_at\<close> are written but
  never read by the code below and are left out.  \<open>training_threads\<close> records, oldest
  first, the \<open>trigger_count\<close> argument of every background thread that
  \<open>_trigger_model_training\<close> has started: one entry per triggered training run.
\<close>

record counter_doc =
  current_count :: int
  threshold :: int
  total_retrainings :: int

record counter_state =
  counter :: "counter_doc option"
  training_in_progress :: bool
  training_threads :: "int list"

definition INTERACTION_THRESHOLD :: int where
  "INTERACTION_THRESHOLD = 10"

text \<open>\<open>__init__\<close> on an empty collection: \<open>_initialize_counter\<close> inserts the document,
  then the flag is set to \<open>False\<close>.\<close>

definition initial_counter_state :: counter_state where
  "initial_counter_state =
     \<lparr>counter = Some \<lparr>current_count = 0, threshold = INTERACTION_THRESHOLD,
                       total_retrainings = 0\<rparr>,
      training_in_progress = False,
      training_threads = []\<rparr>"

text \<open>\<open>reset_counter\<close>: \<open>update_one\<close> with \<open>$set current_count 0\<close>; no document, no change.\<close>

definition reset_counter :: "counter_state \<Rightarrow> counter_state" where
  "reset_counter s =
     s\<lparr>counter := map_option (\<lambda>d. d\<lparr>current_count := 0\<rparr>) (counter s)\<rparr>"

text \<open>\<open>_trigger_model_training\<close>: under the lock, give up when a training is in progress,
  else take the flag; then reset the counter and start the background thread.\<close>

definition trigger_model_training :: "int \<Rightarrow> counter_state \<Rightarrow> bool \<times> counter_state" where
  "trigger_model_training trigger_count s =
     (if training_in_progress s then (False, s)
      else
        let s1 = s\<lparr>training_in_progress := True\<rparr>;
            s2 = reset_counter s1
        in (True, s2\<lparr>training_threads := training_threads s2 @ [trigger_count]\<rparr>))"

text \<open>\<open>increment_counter\<close>: \<open>find_one_and_update\<close> with \<open>$inc current_count 1\<close> returning
  the updated document (\<open>None\<close> when there is no document), then the threshold test on
  the values of the returned document.\<close>

definition increment_counter :: "counter_state \<Rightarrow> bool \<times> counter_state" where
  "increment_counter s =
     (case counter s of
        None \<Rightarrow> (False, s)
      | Some d \<Rightarrow>
          let result = d\<lparr>current_count := current_count d + 1\<rparr>;
              s' = s\<lparr>counter := Some result\<rparr>
          in if current_count result \<ge> threshold result
             then trigger_model_training (current_count result) s'
             else (False, s'))"

text \<open>\<open>get_current_count\<close>.\<close>

definition get_current_count :: "counter_state \<Rightarrow> int" where
  "get_current_count s = (case counter s of None \<Rightarrow> 0 | Some d \<Rightarrow> current_count d)"

text \<open>The end of \<open>_execute_training\<close>: on return code 0 \<open>total_retrainings\<close> is
  incremented; in every path the \<open>finally\<close> block releases the flag.\<close>

definition execute_training_end :: "bool \<Rightarrow> counter_state \<Rightarrow> counter_state" where
  "execute_training_end success s =
     (let s1 = (if success
                then s\<lparr>counter := map_option
                        (\<lambda>d. d\<lparr>total_retrainings := total_retrainings d + 1\<rparr>) (counter s)\<rparr>
                else s)
      in s1\<lparr>training_in_progress := False\<rparr>)"






definition threshold_of :: "counter_state \<Rightarrow> int" where
  "threshold_of s = (case counter s of None \<Rightarrow> 0 | Some d \<Rightarrow> threshold d)"

subsection \<open>Concurrent calls of \<open>increment_counter\<close>\<close>

text \<open>
  Calls running at the same time are modelled by interleaving their atomic steps.  The
  atomic steps of one call are the ones the code makes atomic: the
  \<open>find_one_and_update\<close> with \<open>$inc\<close> (one atomic read-modify-write of the
  document, whose result the call keeps), the test and assignment of
  \<open>_training_in_progress\<close> under \<open>_training_lock\<close>, the \<open>update_one\<close> of
  \<open>reset_counter\<close>, and the start of the background thread.  A call is at one of these
  places:
\<close>

datatype call_pc =
    Start
  | Incremented int int
  | HoldsFlag int
  | CounterReset int
  | Returned bool

text \<open>\<open>Incremented n t\<close> holds \<open>current_count\<close> and \<open>threshold\<close> of the returned
  document.  \<open>running\<close> counts the background threads that have been started and have
  not reached their \<open>finally\<close> block yet.\<close>

record conc_state =
  shared :: counter_state
  calls :: "call_pc multiset"
  running :: nat

inductive conc_step :: "conc_state \<Rightarrow> conc_state \<Rightarrow> bool" where
  inc:
    "calls c = add_mset Start rest \<Longrightarrow> counter (shared c) = Some d \<Longrightarrow>
     conc_step c
       (c\<lparr>shared := (shared c)\<lparr>counter := Some (d\<lparr>current_count := current_count d + 1\<rparr>)\<rparr>,
          calls := add_mset (Incremented (current_count d + 1) (threshold d)) rest\<rparr>)"
| no_document:
    "calls c = add_mset Start rest \<Longrightarrow> counter (shared c) = None \<Longrightarrow>
     conc_step c (c\<lparr>calls := add_mset (Returned False) rest\<rparr>)"
| below_threshold:
    "calls c = add_mset (Incremented n t) rest \<Longrightarrow> \<not> n \<ge> t \<Longrightarrow>
     conc_step c (c\<lparr>calls := add_mset (Returned False) rest\<rparr>)"
| already_training:
    "calls c = add_mset (Incremented n t) rest \<Longrightarrow> n \<ge> t \<Longrightarrow>
     training_in_progress (shared c) \<Longrightarrow>
     conc_step c (c\<lparr>calls := add_mset (Returned False) rest\<rparr>)"
| take_flag:
    "calls c = add_mset (Incremented n t) rest \<Longrightarrow> n \<ge> t \<Longrightarrow>
     \<not> training_in_progress (shared c) \<Longrightarrow>
     conc_step c
       (c\<lparr>shared := (shared c)\<lparr>training_in_progress := True\<rparr>,
          calls := add_mset (HoldsFlag n) rest\<rparr>)"
| reset:
    "calls c = add_mset (HoldsFlag n) rest \<Longrightarrow>
     conc_step c
       (c\<lparr>shared := reset_counter (shared c),
          calls := add_mset (CounterReset n) rest\<rparr>)"
| start_thread:
    "calls c = add_mset (CounterReset n) rest \<Longrightarrow>
     conc_step c
       (c\<lparr>shared := (shared c)\<lparr>training_threads := training_threads (shared c) @ [n]\<rparr>,
          calls := add_mset (Returned True) rest,
          running := running c + 1\<rparr>)"
| training_ends:
    "running c > 0 \<Longrightarrow>
     conc_step c
       (c\<lparr>shared := execute_training_end ok (shared c),
          running := running c - 1\<rparr>)"

text \<open>\<open>N\<close> calls have been made on the instance in state \<open>s\<close> and none has taken a
  step yet; \<open>r\<close> background threads started earlier are still running.\<close>

definition conc_start :: "counter_state \<Rightarrow> nat \<Rightarrow> nat \<Rightarrow> conc_state" where
  "conc_start s N r = \<lparr>shared = s, calls = replicate_mset N Start, running = r\<rparr>"

text \<open>The trainings triggered since the calls were made from state \<open>s\<close>: the threads
  started after those that \<open>s\<close> records.\<close>

definition new_trainings :: "counter_state \<Rightarrow> conc_state \<Rightarrow> int list" where
  "new_trainings s c = drop (length (training_threads s)) (training_threads (shared c))"

text \<open>Two instances with threshold 2 and the counter at 0: an idle one, and one whose
  last trigger started a training that is still running.\<close>

definition idle_counter_state :: counter_state where
  "idle_counter_state =
     \<lparr>counter = Some \<lparr>current_count = 0, threshold = 2, total_retrainings = 0\<rparr>,
      training_in_progress = False,
      training_threads = []\<rparr>"

definition busy_counter_state :: counter_state where
  "busy_counter_state =
     \<lparr>counter = Some \<lparr>current_count = 0, threshold = 2, total_retrainings = 0\<rparr>,
      training_in_progress = True,
      training_threads = [2]\<rparr>"

fun is_returned :: "call_pc \<Rightarrow> bool" where
  "is_returned (Returned b) = True"
| "is_returned p = False"

text \<open>The number of calls at a place with property \<open>P\<close>.\<close>

definition calls_at :: "(call_pc \<Rightarrow> bool) \<Rightarrow> call_pc multiset \<Rightarrow> nat" where
  "calls_at P M = size (filter_mset P M)"

definition all_returned :: "conc_state \<Rightarrow> bool" where
  "all_returned c = (calls_at (\<lambda>p. \<not> is_returned p) (calls c) = 0)"

definition trainings_triggered :: "conc_state \<Rightarrow> nat" where
  "trainings_triggered c = length (training_threads (shared c))"

text \<open>The work left in a state: every step makes it smaller, so every interleaving is
  finite.\<close>

fun pc_weight :: "call_pc \<Rightarrow> nat" where
  "pc_weight Start = 8"
| "pc_weight (Incremented n t) = 6"
| "pc_weight (HoldsFlag n) = 4"
| "pc_weight (CounterReset n) = 2"
| "pc_weight (Returned b) = 0"

definition conc_measure :: "conc_state \<Rightarrow> nat" where
  "conc_measure c = sum_mset (image_mset pc_weight (calls c)) + running c"

text \<open>A call that crossed the threshold: it holds a count at or above the threshold, or
  is past that test on the triggering side.\<close>

fun crossed :: "call_pc \<Rightarrow> bool" where
  "crossed Start = False"
| "crossed (Incremented n t) = (n \<ge> t)"
| "crossed (HoldsFlag n) = True"
| "crossed (CounterReset n) = True"
| "crossed (Returned b) = b"

fun awaiting_flag :: "call_pc \<Rightarrow> bool" where
  "awaiting_flag (Incremented n t) = (n \<ge> t)"
| "awaiting_flag p = False"

fun past_reset :: "call_pc \<Rightarrow> bool" where
  "past_reset (CounterReset n) = True"
| "past_reset (Returned b) = b"
| "past_reset p = False"

fun has_started :: "call_pc \<Rightarrow> bool" where
  "has_started Start = False"
| "has_started p = True"

fun returned_true :: "call_pc \<Rightarrow> bool" where
  "returned_true (Returned b) = b"
| "returned_true p = False"

text \<open>The invariant of the interleavings of \<open>N = T\<close> calls made on an idle instance
  whose counter is at 0 and which records \<open>k0\<close> earlier threads.\<close>

definition conc_inv :: "int \<Rightarrow> nat \<Rightarrow> nat \<Rightarrow> conc_state \<Rightarrow> bool" where
  "conc_inv T N k0 c =
     (let cs = calls c;
          started = calls_at has_started cs;
          k = calls_at crossed cs
      in size cs = N \<and>
         (\<exists>d. counter (shared c) = Some d \<and> threshold d = T \<and>
              (k = 0 \<longrightarrow> current_count d = int started \<and> started < N) \<and>
              (calls_at past_reset cs > 0 \<longrightarrow> current_count d = 0)) \<and>
         k \<le> 1 \<and>
         (k = 1 \<longrightarrow> started = N) \<and>
         trainings_triggered c = k0 + calls_at returned_true cs \<and>
         running c \<le> calls_at returned_true cs \<and>
         (k = 0 \<longrightarrow> \<not> training_in_progress (shared c)) \<and>
         (calls_at awaiting_flag cs > 0 \<longrightarrow> \<not> training_in_progress (shared c)))"

section \<open>Strings\<close>

text \<open>
  Python strings are modelled as \<open>string\<close>, the UTF-8 bytes of the text: equality, \<open>in\<close>
  and \<open>split(",")\<close> on the text are equality, occurrence and splitting on the bytes.

  \<open>str.strip()\<close> and \<open>str.lower()\<close> are functions of the Python library that follow the
  Unicode character database, and the case-insensitive match of a regular expression
  is done by the database server.  They are not code of the repository: the functions
  below take them as the parameter \<open>py\<close> and are about whatever these operations do.
  \<open>name_match py pattern_name name\<close> tells whether the regular expression
  \<open>^pattern_name$\<close>, escaped and with \<open>IGNORECASE\<close>, matches \<open>name\<close>.
\<close>

record py_lib =
  str_strip :: "string \<Rightarrow> string"
  str_lower :: "string \<Rightarrow> string"
  name_match :: "string \<Rightarrow> string \<Rightarrow> bool"

text \<open>
  The operations on ASCII text, for the examples, whose strings are all ASCII.  On
  ASCII the white space of \<open>str.isspace\<close> is the characters 0x09 to 0x0D, 0x1C to 0x1F
  and the blank, and \<open>str.lower()\<close> changes the letters A to Z alone.
\<close>

definition is_space :: "char \<Rightarrow> bool" where
  "is_space c =
     (c \<in> set [CHR 0x09, CHR 0x0A, CHR 0x0B, CHR 0x0C, CHR 0x0D,
                CHR 0x1C, CHR 0x1D, CHR 0x1E, CHR 0x1F, CHR 0x20])"

definition ascii_strip :: "string \<Rightarrow> string" where
  "ascii_strip s = rev (dropWhile is_space (rev (dropWhile is_space s)))"

definition ascii_lower_char :: "char \<Rightarrow> char" where
  "ascii_lower_char c =
     (case map_of (zip ''ABCDEFGHIJKLMNOPQRSTUVWXYZ'' ''abcdefghijklmnopqrstuvwxyz'') c of
        Some d \<Rightarrow> d
      | None \<Rightarrow> c)"

definition ascii_lower :: "string \<Rightarrow> string" where
  "ascii_lower s = map ascii_lower_char s"

definition ascii_lib :: py_lib where
  "ascii_lib =
     \<lparr>str_strip = ascii_strip, str_lower = ascii_lower,
      name_match = (\<lambda>pattern_name name. ascii_lower pattern_name = ascii_lower name)\<rparr>"

text \<open>\<open>s.split(",")\<close>: the pieces between the commas, empty pieces kept.\<close>

fun split_comma :: "string \<Rightarrow> string list" where
  "split_comma [] = [[]]"
| "split_comma (c # cs) =
     (if c = CHR '','' then [] # split_comma cs
      else (case split_comma cs of
              w # ws \<Rightarrow> (c # w) # ws
            | [] \<Rightarrow> [[c]]))"

text \<open>\<open>s[0]\<close> on a string: the first character as a string, \<open>IndexError\<close> (here \<open>None\<close>)
  on the empty string.  In UTF-8 the first byte of a character tells how many bytes
  the character has.\<close>

definition utf8_length :: "char \<Rightarrow> nat" where
  "utf8_length c =
     (let n = (of_char c :: nat)
      in if n < 0xC0 then 1 else if n < 0xE0 then 2 else if n < 0xF0 then 3 else 4)"

fun first_char :: "string \<Rightarrow> string option" where
  "first_char [] = None"
| "first_char (c # cs) = Some (c # take (utf8_length c - 1) cs)"

section \<open>Sorted author preferences (models/user\_sorted\_author\_preferences.py)\<close>

type_synonym user_id = nat

text \<open>The \<open>action\<close> strings: \<open>"like"\<close>, \<open>"dislike"\<close>, and \<open>OtherAction\<close> for any other
  value.\<close>

datatype action = Like | Dislike | OtherAction

record author_entry =
  author_name :: string
  preference_count :: int
  books_liked :: "string list"
  books_disliked :: "string list"
  total_interactions :: int

text \<open>One document per user (\<open>user_id\<close> is a unique index); the timestamps
  \<open>created_at\<close> and \<open>last_updated\<close> are never read and are left out.\<close>

record user_prefs =
  sorted_authors :: "author_entry list"
  total_authors :: int

type_synonym prefs_collection = "user_id \<rightharpoonup> user_prefs"

text \<open>\<open>list.sort(key=lambda x: x["preference_count"], reverse=True)\<close>: a stable sort,
  greatest count first, entries of equal count in their former order.\<close>

definition sort_by_count_desc :: "author_entry list \<Rightarrow> author_entry list" where
  "sort_by_count_desc xs = sort_key (\<lambda>x. - preference_count x) xs"

text \<open>The \<open>weights\<close> dictionary with \<open>weights.get(action, 0)\<close>.\<close>

fun action_weight :: "action \<Rightarrow> int" where
  "action_weight Like = 1"
| "action_weight Dislike = - 1"
| "action_weight OtherAction = 0"

text \<open>The index of the first entry of that name: where the \<open>for\<close> loop of
  \<open>update_author_preference\<close> finds the author and breaks.\<close>

fun author_index :: "string \<Rightarrow> author_entry list \<Rightarrow> nat option" where
  "author_index a [] = None"
| "author_index a (e # es) =
     (if author_name e = a then Some 0 else map_option Suc (author_index a es))"

text \<open>The changes made to the entry found: the count (never below 0), the number of
  interactions, and the book appended to the list of its kind unless it is there.\<close>

definition touch_author :: "int \<Rightarrow> string \<Rightarrow> author_entry \<Rightarrow> author_entry" where
  "touch_author weight book_name author =
     (let new_count = preference_count author + weight;
          author1 = author\<lparr>preference_count := max new_count 0,
                           total_interactions := total_interactions author + 1\<rparr>
      in if weight > 0
         then (if book_name \<in> set (books_liked author1) then author1
               else author1\<lparr>books_liked := books_liked author1 @ [book_name]\<rparr>)
         else (if book_name \<in> set (books_disliked author1) then author1
               else author1\<lparr>books_disliked := books_disliked author1 @ [book_name]\<rparr>))"

text \<open>The body of the loop at index \<open>i\<close> (an index that \<open>author_index\<close> returned, so
  within the list): \<open>pop(i)\<close> when the count is 0, else the whole list is sorted
  again.\<close>

definition update_found :: "int \<Rightarrow> string \<Rightarrow> nat \<Rightarrow> author_entry list \<Rightarrow> author_entry list" where
  "update_found weight book_name i authors =
     (let author = touch_author weight book_name (authors ! i)
      in if preference_count author \<le> 0
         then take i authors @ drop (Suc i) authors
         else sort_by_count_desc (authors[i := author]))"

definition new_author :: "string \<Rightarrow> int \<Rightarrow> string \<Rightarrow> author_entry" where
  "new_author a weight book_name =
     \<lparr>author_name = a, preference_count = weight, books_liked = [book_name],
      books_disliked = [], total_interactions = 1\<rparr>"

definition update_author_preference ::
  "py_lib \<Rightarrow> prefs_collection \<Rightarrow> user_id \<Rightarrow> string \<Rightarrow> action \<Rightarrow> string \<Rightarrow>
   bool \<times> prefs_collection" where
  "update_author_preference py coll user a0 act book_name =
     (if str_strip py a0 = [] then (True, coll)
      else
        let a = str_strip py a0; weight = action_weight act in
        if weight = 0 then (True, coll)
        else
          (case coll user of
             None \<Rightarrow>
               (True,
                coll(user \<mapsto>
                  \<lparr>sorted_authors =
                     (if weight > 0
                      then [\<lparr>author_name = a, preference_count = max weight 0,
                             books_liked = (if weight > 0 then [book_name] else []),
                             books_disliked = (if weight < 0 then [book_name] else []),
                             total_interactions = 1\<rparr>]
                      else []),
                   total_authors = (if weight > 0 then 1 else 0)\<rparr>))
           | Some prefs \<Rightarrow>
               let authors = sorted_authors prefs;
                   authors1 =
                     (case author_index a authors of
                        Some i \<Rightarrow> update_found weight book_name i authors
                      | None \<Rightarrow>
                          if weight > 0
                          then sort_by_count_desc (authors @ [new_author a weight book_name])
                          else authors)
               in (True,
                   coll(user \<mapsto> prefs\<lparr>sorted_authors := authors1,
                                       total_authors := int (length authors1)\<rparr>))))"

text \<open>\<open>get_most_preferred_author\<close>: the first entry of the list (\<open>$slice: 1\<close>), \<open>None\<close>
  without a document or with an empty list.\<close>

definition get_most_preferred_author :: "prefs_collection \<Rightarrow> user_id \<Rightarrow> author_entry option" where
  "get_most_preferred_author coll user =
     (case coll user of
        None \<Rightarrow> None
      | Some prefs \<Rightarrow>
          (case sorted_authors prefs of [] \<Rightarrow> None | most_preferred # _ \<Rightarrow> Some most_preferred))"

text \<open>
  \<open>remove_author_preference\<close>: a single \<open>update_one\<close> with the array filter
  \<open>author.author_name = author_name\<close>.  In every array element of that name it pulls
  the book out of \<open>books_liked\<close> (action \<open>"like"\<close>) or \<open>books_disliked\<close> (any other
  action) and adds \<open>weight\<close> to \<open>preference_count\<close> and \<open>-1\<close> to \<open>total_interactions\<close>.
  Nothing else of the document is written.  The result is \<open>modified_count > 0\<close>.
\<close>

definition pull_and_inc :: "string \<Rightarrow> action \<Rightarrow> string \<Rightarrow> author_entry \<Rightarrow> author_entry" where
  "pull_and_inc a act book_name e =
     (if author_name e = a
      then
        (let weight = (if act = Like then - 1 else 1);
             e1 = (if act = Like
                   then e\<lparr>books_liked := removeAll book_name (books_liked e)\<rparr>
                   else e\<lparr>books_disliked := removeAll book_name (books_disliked e)\<rparr>)
         in e1\<lparr>preference_count := preference_count e + weight,
                total_interactions := total_interactions e - 1\<rparr>)
      else e)"

definition remove_author_preference ::
  "prefs_collection \<Rightarrow> user_id \<Rightarrow> string \<Rightarrow> action \<Rightarrow> string \<Rightarrow> bool \<times> prefs_collection" where
  "remove_author_preference coll user a act book_name =
     (case coll user of
        None \<Rightarrow> (False, coll)
      | Some prefs \<Rightarrow>
          let authors1 = map (pull_and_inc a act book_name) (sorted_authors prefs)
          in (authors1 \<noteq> sorted_authors prefs,
              coll(user \<mapsto> prefs\<lparr>sorted_authors := authors1\<rparr>)))"

text \<open>The AuthorPreference invariant of a user's list: every entry has a count of at
  least 1, the list is sorted by count, greatest first, and so the first entry has
  the greatest count of all.\<close>

definition author_list_ok :: "author_entry list \<Rightarrow> bool" where
  "author_list_ok authors =
     (list_all (\<lambda>e. preference_count e \<ge> 1) authors \<and>
      sorted_wrt (\<lambda>x y. preference_count x \<ge> preference_count y) authors \<and>
      (case authors of
         [] \<Rightarrow> True
       | first # _ \<Rightarrow> list_all (\<lambda>e. preference_count e \<le> preference_count first) authors))"

definition prefs_ok :: "prefs_collection \<Rightarrow> user_id \<Rightarrow> bool" where
  "prefs_ok coll user =
     (case coll user of None \<Rightarrow> True | Some prefs \<Rightarrow> author_list_ok (sorted_authors prefs))"

text \<open>Operations on the store, as the claims speak of them.\<close>

datatype pref_op =
    Update string action string
  | Remove string action string

fun apply_pref_op ::
  "py_lib \<Rightarrow> user_id \<Rightarrow> pref_op \<Rightarrow> prefs_collection \<Rightarrow> prefs_collection" where
  "apply_pref_op py user (Update a act b) coll =
     snd (update_author_preference py coll user a act b)"
| "apply_pref_op py user (Remove a act b) coll =
     snd (remove_author_preference coll user a act b)"

fun apply_pref_ops ::
  "py_lib \<Rightarrow> user_id \<Rightarrow> pref_op list \<Rightarrow> prefs_collection \<Rightarrow> prefs_collection" where
  "apply_pref_ops py user [] coll = coll"
| "apply_pref_ops py user (x # xs) coll =
     apply_pref_ops py user xs (apply_pref_op py user x coll)"

fun is_update :: "pref_op \<Rightarrow> bool" where
  "is_update (Update a act b) = True"
| "is_update (Remove a act b) = False"

text \<open>The net count of an author for a user: the count of the first entry of that
  name, 0 when there is none.\<close>

definition count_table :: "author_entry list \<Rightarrow> (string \<times> int) list" where
  "count_table authors = map (\<lambda>e. (author_name e, preference_count e)) authors"



section \<open>User book interactions (models/user\_book\_interaction.py)\<close>

text \<open>
  A document of the catalogue collection \<open>book\<close>, with the fields the code below reads.
  \<open>language_of_book\<close> is \<open>None\<close> when the field is missing or null;
  \<open>popularity_score\<close> is the value of \<open>book.get("popularity_score", 0)\<close>.  Scores are
  Python floats; they are only compared, and the order of floats is the order of
  the numbers they stand for, so they are modelled as \<open>real\<close>.
\<close>

record book =
  book_id :: nat
  book_name :: string
  language_of_book :: "string option"
  popularity_score :: real

text \<open>A document of \<open>user_book_interactions\<close>.\<close>

record interaction =
  i_user :: user_id
  i_book_name :: string
  i_book_author :: string
  i_action :: action
  i_timestamp :: nat
  i_genres :: "string list"

type_synonym genre_collection = "(user_id \<times> string) \<rightharpoonup> int"

text \<open>
  The collections and services \<open>like_book\<close> and \<open>dislike_book\<close> write to: the three
  collections of \<open>UserBookInteraction\<close>, the sorted author preferences, the
  \<open>user_languages\<close> field of the user documents, the interaction counter, the cached
  recommendations under \<open>recommendations:user:<id>:*\<close> and the users that have keys
  under \<open>best_from_author:user:<id>:*\<close>.  User identifiers are taken as valid
  \<open>ObjectId\<close>s and the database and cache as reachable.
\<close>

record ubi_state =
  interactions :: "interaction list"
  liked_genres :: genre_collection
  disliked_genres :: genre_collection
  author_prefs :: prefs_collection
  users_languages :: "user_id \<rightharpoonup> string list"
  counter_st :: counter_state
  rec_cache :: "user_id \<rightharpoonup> book list"
  author_cache :: "user_id set"

text \<open>The \<open>book_genres\<close> argument: a list of strings, a string, or anything else.\<close>

datatype genres_arg = GenresList "string list" | GenresStr string | GenresOther

fun parse_genres :: "py_lib \<Rightarrow> genres_arg \<Rightarrow> string list" where
  "parse_genres py (GenresList gs) =
     map (str_strip py) (filter (\<lambda>g. str_strip py g \<noteq> []) gs)"
| "parse_genres py (GenresStr s) =
     map (str_strip py) (filter (\<lambda>g. str_strip py g \<noteq> []) (split_comma s))"
| "parse_genres py GenresOther = []"

text \<open>\<open>find_one\<close> with a filter: the first document that matches; \<open>update_one\<close>: the
  first document that matches is changed.\<close>

fun update_first :: "('a \<Rightarrow> bool) \<Rightarrow> ('a \<Rightarrow> 'a) \<Rightarrow> 'a list \<Rightarrow> 'a list" where
  "update_first P f [] = []"
| "update_first P f (x # xs) = (if P x then f x # xs else x # update_first P f xs)"

definition find_interaction :: "ubi_state \<Rightarrow> user_id \<Rightarrow> string \<Rightarrow> interaction option" where
  "find_interaction s user name =
     find (\<lambda>i. i_user i = user \<and> i_book_name i = name) (interactions s)"

text \<open>\<open>Book.get_book_language\<close>: the first book whose name the case-insensitive
  pattern made of the given name matches.\<close>

definition get_book_language :: "py_lib \<Rightarrow> book list \<Rightarrow> string \<Rightarrow> string option" where
  "get_book_language py catalog name =
     (case find (\<lambda>b. name_match py name (book_name b)) catalog of
        None \<Rightarrow> None
      | Some b \<Rightarrow> language_of_book b)"

text \<open>\<open>User.add_user_language\<close>: \<open>$addToSet\<close> of the lower-case language on the user
  document, if there is one.\<close>

definition add_user_language ::
  "py_lib \<Rightarrow> (user_id \<rightharpoonup> string list) \<Rightarrow> user_id \<Rightarrow> string \<Rightarrow>
   (user_id \<rightharpoonup> string list)" where
  "add_user_language py users user language =
     (if language = [] then users
      else (case users user of
              None \<Rightarrow> users
            | Some langs \<Rightarrow>
                if str_lower py language \<in> set langs then users
                else users(user \<mapsto> langs @ [str_lower py language])))"

definition update_user_language ::
  "py_lib \<Rightarrow> book list \<Rightarrow> ubi_state \<Rightarrow> user_id \<Rightarrow> string \<Rightarrow> ubi_state" where
  "update_user_language py catalog s user name =
     (case get_book_language py catalog name of
        None \<Rightarrow> s
      | Some language \<Rightarrow>
          if language = [] then s
          else s\<lparr>users_languages :=
                   add_user_language py (users_languages s) user language\<rparr>)"

definition add_genre :: "user_id \<Rightarrow> string \<Rightarrow> genre_collection \<Rightarrow> genre_collection" where
  "add_genre user genre coll =
     (if genre = [] then coll
      else (case coll (user, genre) of
              Some n \<Rightarrow> coll((user, genre) \<mapsto> n + 1)
            | None \<Rightarrow> coll((user, genre) \<mapsto> 1)))"

definition remove_genre :: "user_id \<Rightarrow> string \<Rightarrow> genre_collection \<Rightarrow> genre_collection" where
  "remove_genre user genre coll =
     (if genre = [] then coll
      else (case coll (user, genre) of
              Some n \<Rightarrow> if n \<le> 1 then coll((user, genre) := None)
                        else coll((user, genre) \<mapsto> n - 1)
            | None \<Rightarrow> coll))"

definition add_genre_preferences :: "ubi_state \<Rightarrow> user_id \<Rightarrow> string list \<Rightarrow> action \<Rightarrow> ubi_state" where
  "add_genre_preferences s user genres act =
     (if act = Like
      then s\<lparr>liked_genres := fold (add_genre user) genres (liked_genres s)\<rparr>
      else s\<lparr>disliked_genres := fold (add_genre user) genres (disliked_genres s)\<rparr>)"

definition remove_genre_preferences :: "ubi_state \<Rightarrow> user_id \<Rightarrow> string list \<Rightarrow> action \<Rightarrow> ubi_state" where
  "remove_genre_preferences s user genres act =
     (if act = Like
      then s\<lparr>liked_genres := fold (remove_genre user) genres (liked_genres s)\<rparr>
      else s\<lparr>disliked_genres := fold (remove_genre user) genres (disliked_genres s)\<rparr>)"

text \<open>\<open>remove_author_preferences\<close> of \<open>UserBookInteraction\<close>.\<close>

definition remove_author_preferences ::
  "ubi_state \<Rightarrow> user_id \<Rightarrow> string \<Rightarrow> action \<Rightarrow> string \<Rightarrow> ubi_state" where
  "remove_author_preferences s user a act name =
     s\<lparr>author_prefs := snd (remove_author_preference (author_prefs s) user a act name)\<rparr>"

text \<open>\<open>_update_author_affinity\<close>: the top author before, the update, the top author
  after; the result tells whether the name of the top author changed.\<close>

definition update_author_affinity ::
  "py_lib \<Rightarrow> ubi_state \<Rightarrow> user_id \<Rightarrow> string \<Rightarrow> action \<Rightarrow> string \<Rightarrow> bool \<times> ubi_state" where
  "update_author_affinity py s user a act name =
     (let current_top = map_option author_name (get_most_preferred_author (author_prefs s) user);
          prefs1 = snd (update_author_preference py (author_prefs s) user a act name);
          new_top = map_option author_name (get_most_preferred_author prefs1 user)
      in (current_top \<noteq> new_top, s\<lparr>author_prefs := prefs1\<rparr>))"

definition increment_interaction_counter :: "ubi_state \<Rightarrow> ubi_state" where
  "increment_interaction_counter s = s\<lparr>counter_st := snd (increment_counter (counter_st s))\<rparr>"

text \<open>The common end of \<open>like_book\<close> and \<open>dislike_book\<close>: author affinity, cache
  invalidation, counter.\<close>

definition record_affinity ::
  "py_lib \<Rightarrow> ubi_state \<Rightarrow> user_id \<Rightarrow> string \<Rightarrow> action \<Rightarrow> string \<Rightarrow> bool \<times> ubi_state" where
  "record_affinity py s user a act name =
     (let (author_ranking_changed, s1) = update_author_affinity py s user a act name;
          s2 = s1\<lparr>rec_cache := (rec_cache s1)(user := None)\<rparr>;
          s3 = (if author_ranking_changed
                then s2\<lparr>author_cache := author_cache s2 - {user}\<rparr> else s2)
      in (True, increment_interaction_counter s3))"

definition set_interaction ::
  "ubi_state \<Rightarrow> user_id \<Rightarrow> string \<Rightarrow> action \<Rightarrow> nat \<Rightarrow> string list \<Rightarrow> ubi_state" where
  "set_interaction s user name act now genres =
     s\<lparr>interactions :=
         update_first (\<lambda>i. i_user i = user \<and> i_book_name i = name)
           (\<lambda>i. i\<lparr>i_action := act, i_timestamp := now, i_genres := genres\<rparr>)
           (interactions s)\<rparr>"

definition insert_interaction ::
  "ubi_state \<Rightarrow> user_id \<Rightarrow> string \<Rightarrow> string \<Rightarrow> action \<Rightarrow> nat \<Rightarrow> string list \<Rightarrow> ubi_state" where
  "insert_interaction s user name a act now genres =
     s\<lparr>interactions := interactions s @
         [\<lparr>i_user = user, i_book_name = name, i_book_author = a, i_action = act,
           i_timestamp = now, i_genres = genres\<rparr>]\<rparr>"

text \<open>\<open>like_book\<close>.  \<open>now\<close> is the value of \<open>datetime.utcnow()\<close>, \<open>catalog\<close> the book
  collection that \<open>_update_user_language\<close> reads.\<close>

definition like_book ::
  "py_lib \<Rightarrow> book list \<Rightarrow> nat \<Rightarrow> ubi_state \<Rightarrow> user_id \<Rightarrow> string \<Rightarrow> string \<Rightarrow> genres_arg \<Rightarrow>
   bool \<times> ubi_state" where
  "like_book py catalog now s user name book_author book_genres =
     (let existing_interaction = find_interaction s user name;
          genres_list = parse_genres py book_genres;
          s0 = update_user_language py catalog s user name
      in case existing_interaction of
           Some ex \<Rightarrow>
             let old_action = i_action ex in
             if old_action = Like then (True, s0)
             else
               let s1 = set_interaction s0 user name Like now genres_list;
                   s2 = (if old_action = Dislike
                         then remove_author_preferences
                                (remove_genre_preferences s1 user genres_list Dislike)
                                user book_author Dislike name
                         else s1)
               in record_affinity py s2 user book_author Like name
         | None \<Rightarrow>
             let s1 = insert_interaction s0 user name book_author Like now genres_list;
                 s2 = add_genre_preferences s1 user genres_list Like
             in record_affinity py s2 user book_author Like name)"

text \<open>\<open>dislike_book\<close>.  It passes \<open>book_author[0]\<close> where \<open>like_book\<close> passes
  \<open>book_author\<close>; on the empty string that raises \<open>IndexError\<close>, which the \<open>except\<close>
  clause turns into the result \<open>False\<close> at the point reached.\<close>

definition dislike_book ::
  "py_lib \<Rightarrow> book list \<Rightarrow> nat \<Rightarrow> ubi_state \<Rightarrow> user_id \<Rightarrow> string \<Rightarrow> string \<Rightarrow> genres_arg \<Rightarrow>
   bool \<times> ubi_state" where
  "dislike_book py catalog now s user name book_author book_genres =
     (let existing_interaction = find_interaction s user name;
          genres_list = parse_genres py book_genres;
          s0 = update_user_language py catalog s user name
      in case existing_interaction of
           Some ex \<Rightarrow>
             let old_action = i_action ex in
             if old_action = Dislike then (True, s0)
             else
               let s1 = set_interaction s0 user name Dislike now genres_list;
                   s2 = (if old_action = Like
                         then remove_author_preferences
                                (remove_genre_preferences s1 user genres_list Like)
                                user book_author Like name
                         else s1)
               in (case first_char book_author of
                     None \<Rightarrow> (False, s2)
                   | Some a0 \<Rightarrow> record_affinity py s2 user a0 Dislike name)
         | None \<Rightarrow>
             (case first_char book_author of
                None \<Rightarrow> (False, s0)
              | Some a0 \<Rightarrow>
                  let s1 = insert_interaction s0 user name a0 Dislike now genres_list;
                      s2 = add_genre_preferences s1 user genres_list Dislike
                  in record_affinity py s2 user a0 Dislike name))"

text \<open>\<open>get_top\<close> of the spec: \<open>get_most_preferred_author\<close> on the stored preferences.\<close>

definition get_top :: "ubi_state \<Rightarrow> user_id \<Rightarrow> author_entry option" where
  "get_top s user = get_most_preferred_author (author_prefs s) user"

text \<open>A fresh system: empty collections, the counter as \<open>__init__\<close> leaves it; the
  users \<open>registered\<close> have a document with an empty language list.\<close>

definition empty_store :: "user_id set \<Rightarrow> ubi_state" where
  "empty_store registered =
     \<lparr>interactions = [],
      liked_genres = Map.empty,
      disliked_genres = Map.empty,
      author_prefs = Map.empty,
      users_languages = (\<lambda>u. if u \<in> registered then Some [] else None),
      counter_st = initial_counter_state,
      rec_cache = Map.empty,
      author_cache = {}\<rparr>"






section \<open>Collaborative cascade recommender (models/recommendation\_engine.py)\<close>

subsection \<open>Language matching\<close>

text \<open>\<open>a in b\<close> on strings: \<open>a\<close> occurs in \<open>b\<close> as a contiguous piece.\<close>

fun starts_with :: "string \<Rightarrow> string \<Rightarrow> bool" where
  "starts_with s [] = True"
| "starts_with [] (p # ps) = False"
| "starts_with (c # cs) (p # ps) = (c = p \<and> starts_with cs ps)"

fun occurs_in :: "string \<Rightarrow> string \<Rightarrow> bool" where
  "occurs_in sub [] = (sub = [])"
| "occurs_in sub (c # cs) = (starts_with (c # cs) sub \<or> occurs_in sub cs)"

text \<open>The dictionary \<open>language_mappings\<close> of \<open>_languages_match\<close>, in its order; the
  names outside ASCII are given by their UTF-8 bytes.\<close>

definition language_mappings :: "(string \<times> string list) list" where
  "language_mappings =
     [(''english'', [''en'', ''eng'', ''en-us'', ''en-gb'', ''english'']),
      (''spanish'',
        [''es'', ''esp'', ''espa'' @ [CHR 0xC3, CHR 0xB1] @ ''ol'', ''castellano'',
         ''es-es'', ''es-mx'', ''spanish'']),
      (''french'',
        [''fr'', ''fran'' @ [CHR 0xC3, CHR 0xA7] @ ''ais'', ''francais'', ''fr-fr'',
         ''french'']),
      (''german'', [''de'', ''deutsch'', ''german'', ''de-de'']),
      (''italian'', [''it'', ''italiano'', ''it-it'', ''italian'']),
      (''portuguese'',
        [''pt'', ''portugu'' @ [CHR 0xC3, CHR 0xAA] @ ''s'', ''portugues'', ''pt-br'',
         ''pt-pt'', ''portuguese'']),
      (''chinese'', [''zh'', ''chinese'', ''mandarin'', ''zh-cn'', ''zh-tw'']),
      (''japanese'', [''ja'', ''japanese'', ''jp'', ''ja-jp'']),
      (''korean'', [''ko'', ''korean'', ''kr'', ''ko-kr'']),
      (''russian'',
        [''ru'', ''russian'',
         [CHR 0xD1, CHR 0x80, CHR 0xD1, CHR 0x83, CHR 0xD1, CHR 0x81, CHR 0xD1, CHR 0x81,
          CHR 0xD0, CHR 0xBA, CHR 0xD0, CHR 0xB8, CHR 0xD0, CHR 0xB9],
         ''ru-ru'']),
      (''arabic'',
        [''ar'', ''arabic'',
         [CHR 0xD8, CHR 0xA7, CHR 0xD9, CHR 0x84, CHR 0xD8, CHR 0xB9, CHR 0xD8, CHR 0xB1,
          CHR 0xD8, CHR 0xA8, CHR 0xD9, CHR 0x8A, CHR 0xD8, CHR 0xA9],
         ''ar-sa'',
         [CHR 0xD8, CHR 0xB9, CHR 0xD8, CHR 0xB1, CHR 0xD8, CHR 0xA8, CHR 0xD9, CHR 0x8A],
         [CHR 0xD8, CHR 0xB9, CHR 0xD8, CHR 0xB1, CHR 0xD8, CHR 0xA8, CHR 0xD9, CHR 0x8A,
          CHR 0xD8, CHR 0xA9]]),
      (''hindi'',
        [''hi'', ''hindi'',
         [CHR 0xE0, CHR 0xA4, CHR 0xB9, CHR 0xE0, CHR 0xA4, CHR 0xBF, CHR 0xE0, CHR 0xA4,
          CHR 0xA8, CHR 0xE0, CHR 0xA5, CHR 0x8D, CHR 0xE0, CHR 0xA4, CHR 0xA6, CHR 0xE0,
          CHR 0xA5, CHR 0x80],
         ''hi-in''])]"

definition languages_match :: "py_lib \<Rightarrow> string \<Rightarrow> string \<Rightarrow> bool" where
  "languages_match py book_language0 user_language0 =
     (let book_language = str_strip py (str_lower py book_language0);
          user_language = str_strip py (str_lower py user_language0)
      in if book_language = user_language then True
         else if occurs_in user_language book_language \<or> occurs_in book_language user_language
         then True
         else list_ex
                (\<lambda>(main_lang, alternatives).
                   (user_language = main_lang \<and> book_language \<in> set alternatives) \<or>
                   (book_language = main_lang \<and> user_language \<in> set alternatives) \<or>
                   (user_language \<in> set alternatives \<and> book_language \<in> set alternatives))
                language_mappings)"

definition meets_language_requirement :: "py_lib \<Rightarrow> book \<Rightarrow> string list \<Rightarrow> bool" where
  "meets_language_requirement py book_info user_languages =
     (if user_languages = [] then True
      else (case language_of_book book_info of
              None \<Rightarrow> True
            | Some book_language \<Rightarrow>
                if book_language = [] then True
                else list_ex (languages_match py (str_strip py (str_lower py book_language)))
                       user_languages))"

subsection \<open>The queries on the interaction store and the catalogue\<close>

text \<open>\<open>get_user_interactions(user, action, limit)\<close>: the user's interactions with that
  action, newest first, at most \<open>limit\<close>.  Interactions with the same timestamp are
  taken in the order of the collection.\<close>

definition get_user_interactions ::
  "interaction list \<Rightarrow> user_id \<Rightarrow> action \<Rightarrow> nat \<Rightarrow> interaction list" where
  "get_user_interactions coll user act limit =
     take limit
       (sort_key (\<lambda>i. - int (i_timestamp i))
          (filter (\<lambda>i. i_user i = user \<and> i_action i = act) coll))"

definition get_user_interacted_book_names :: "interaction list \<Rightarrow> user_id \<Rightarrow> string list" where
  "get_user_interacted_book_names coll user =
     map i_book_name (filter (\<lambda>i. i_user i = user) coll)"

definition get_user_interaction_count :: "interaction list \<Rightarrow> user_id \<Rightarrow> nat" where
  "get_user_interaction_count coll user = length (filter (\<lambda>i. i_user i = user) coll)"

text \<open>\<open>_get_book_info\<close>: the first book of that name, formatted; the formatted record
  keeps the name, the language and the popularity score.\<close>

definition get_book_info :: "book list \<Rightarrow> string \<Rightarrow> book option" where
  "get_book_info catalog name = find (\<lambda>b. book_name b = name) catalog"

text \<open>\<open>_get_user_languages\<close>: the languages of the user document, lower case and
  stripped; no document, no languages.\<close>

definition get_user_languages ::
  "py_lib \<Rightarrow> (user_id \<rightharpoonup> string list) \<Rightarrow> user_id \<Rightarrow> string list" where
  "get_user_languages py users user =
     (case users user of
        None \<Rightarrow> []
      | Some langs \<Rightarrow> map (\<lambda>lang. str_strip py (str_lower py lang)) langs)"

subsection \<open>The engine and its surroundings\<close>

text \<open>
  \<open>rw_model_loaded\<close> tells whether \<open>self.model\<close> is set, \<open>rw_user_mapping\<close> holds the keys
  of \<open>self.user_mapping\<close>.  \<open>rw_model_files\<close> is the user mapping stored in the two
  pickle files, \<open>None\<close> when one of them is missing.  \<open>rw_similarities\<close> is the collection
  \<open>user_similarities\<close>: for a user, the lists \<open>similar_users\<close> and \<open>similarities\<close>.
  \<open>rw_training_runs\<close> counts the runs of the external script \<open>train_model.py\<close> that
  \<open>_retrain_for_new_user\<close> has started.
\<close>

record rec_world =
  rw_model_loaded :: bool
  rw_user_mapping :: "user_id set"
  rw_model_files :: "user_id set option"
  rw_similarities :: "user_id \<rightharpoonup> (user_id list \<times> real list)"
  rw_store :: ubi_state
  rw_books :: "book list"
  rw_script_exists :: bool
  rw_training_runs :: nat

text \<open>What a run of the external script leaves behind: its return code, the model
  files and the similarity collection.\<close>

record training_outcome =
  returncode :: int
  files_after :: "user_id set option"
  similarities_after :: "user_id \<rightharpoonup> (user_id list \<times> real list)"

definition load_model :: "rec_world \<Rightarrow> bool \<times> rec_world" where
  "load_model w =
     (case rw_model_files w of
        None \<Rightarrow> (False, w)
      | Some mapping \<Rightarrow> (True, w\<lparr>rw_model_loaded := True, rw_user_mapping := mapping\<rparr>))"

text \<open>\<open>_retrain_for_new_user\<close>: nothing is run for a user without interactions or when
  the script is missing; else the script runs to its end, and the model is loaded
  again when it returned 0.\<close>

definition retrain_for_new_user :: "training_outcome \<Rightarrow> rec_world \<Rightarrow> user_id \<Rightarrow> bool \<times> rec_world" where
  "retrain_for_new_user outcome w user =
     (if get_user_interaction_count (interactions (rw_store w)) user = 0 then (False, w)
      else if \<not> rw_script_exists w then (False, w)
      else
        let w1 = w\<lparr>rw_model_files := files_after outcome,
                   rw_similarities := similarities_after outcome,
                   rw_training_runs := rw_training_runs w + 1\<rparr>
        in if returncode outcome = 0 then load_model w1 else (False, w1))"

text \<open>\<open>xs[:n]\<close> for an integer \<open>n\<close>: a negative \<open>n\<close> counts from the end.\<close>

definition py_prefix :: "int \<Rightarrow> 'a list \<Rightarrow> 'a list" where
  "py_prefix n xs = (if n \<ge> 0 then take (nat n) xs else take (length xs - nat (- n)) xs)"

text \<open>The first loop over a similar user's liked books: books the target user has
  interacted with are skipped, and so are names already taken and names the
  catalogue does not have; the entries are the book records (\<open>book_info_map\<close>).\<close>

fun gather_liked :: "book list \<Rightarrow> string list \<Rightarrow> string list \<Rightarrow> book list \<Rightarrow> book list" where
  "gather_liked catalog interacted [] liked = liked"
| "gather_liked catalog interacted (name # names) liked =
     (if name \<in> set interacted then gather_liked catalog interacted names liked
      else if name \<in> set (map book_name liked) then gather_liked catalog interacted names liked
      else (case get_book_info catalog name of
              None \<Rightarrow> gather_liked catalog interacted names liked
            | Some info \<Rightarrow> gather_liked catalog interacted names (liked @ [info])))"

text \<open>\<open>liked_books.sort(key=popularity_score, reverse=True)\<close>, a stable sort.\<close>

definition sort_by_popularity :: "book list \<Rightarrow> book list" where
  "sort_by_popularity bs = sort_key (\<lambda>b. - popularity_score b) bs"

definition liked_books_of ::
  "rec_world \<Rightarrow> string list \<Rightarrow> user_id \<Rightarrow> book list" where
  "liked_books_of w interacted similar_user =
     sort_by_popularity
       (gather_liked (rw_books w) interacted
          (map i_book_name
             (get_user_interactions (interactions (rw_store w)) similar_user Like 100))
          [])"

text \<open>The second loop: stop when the count is reached, skip a name that is already
  recommended, skip a book that fails the language check, else append.\<close>

fun add_books :: "py_lib \<Rightarrow> int \<Rightarrow> string list \<Rightarrow> book list \<Rightarrow> book list \<Rightarrow> book list" where
  "add_books py n langs [] recs = recs"
| "add_books py n langs (b # bs) recs =
     (if int (length recs) \<ge> n then recs
      else if list_ex (\<lambda>r. book_name r = book_name b) recs then add_books py n langs bs recs
      else if \<not> meets_language_requirement py b langs then add_books py n langs bs recs
      else add_books py n langs bs (recs @ [b]))"

text \<open>The loop over the similar users, in the order of the list.\<close>

fun cascade ::
  "py_lib \<Rightarrow> rec_world \<Rightarrow> int \<Rightarrow> string list \<Rightarrow> string list \<Rightarrow> user_id list \<Rightarrow> book list \<Rightarrow>
   book list" where
  "cascade py w n interacted langs [] recs = recs"
| "cascade py w n interacted langs (u # us) recs =
     (if int (length recs) \<ge> n then recs
      else
        let recs1 = add_books py n langs (liked_books_of w interacted u) recs
        in if int (length recs1) \<ge> n then recs1
           else cascade py w n interacted langs us recs1)"

text \<open>The similar users that are kept: the pairs of \<open>zip\<close> whose score is not below 0.5.\<close>

definition kept_pairs :: "user_id list \<Rightarrow> real list \<Rightarrow> (user_id \<times> real) list" where
  "kept_pairs ids scores = filter (\<lambda>(uid, score). \<not> score < 1 / 2) (zip ids scores)"

definition kept_similar_users :: "user_id list \<Rightarrow> real list \<Rightarrow> user_id list" where
  "kept_similar_users ids scores = map fst (kept_pairs ids scores)"


text \<open>The start of \<open>get_enhanced_ubcf_recommendations\<close> after the cache: the model is
  loaded if it is not in memory (the result of \<open>_load_model\<close> is not looked at), and a
  user who is not in the user mapping is sent to \<open>_retrain_for_new_user\<close>.\<close>

definition after_load :: "rec_world \<Rightarrow> rec_world" where
  "after_load w = (if \<not> rw_model_loaded w then snd (load_model w) else w)"

definition ensure_model :: "training_outcome \<Rightarrow> rec_world \<Rightarrow> user_id \<Rightarrow> bool \<times> rec_world" where
  "ensure_model outcome w user =
     (let w1 = after_load w
      in if user \<notin> rw_user_mapping w1 then retrain_for_new_user outcome w1 user
         else (True, w1))"

definition get_enhanced_ubcf_recommendations ::
  "py_lib \<Rightarrow> training_outcome \<Rightarrow> rec_world \<Rightarrow> user_id \<Rightarrow> int \<Rightarrow> book list \<times> rec_world" where
  "get_enhanced_ubcf_recommendations py outcome w user n =
     (case rec_cache (rw_store w) user of
        Some (c # cs) \<Rightarrow> (py_prefix n (c # cs), w)
      | _ \<Rightarrow>
        let (ready, w2) = ensure_model outcome w user
        in if \<not> ready then ([], w2)
           else
             (case rw_similarities w2 user of
                None \<Rightarrow> ([], w2)
              | Some (similar_user_ids, similarity_scores) \<Rightarrow>
                  let sorted_user_ids = kept_similar_users similar_user_ids similarity_scores;
                      interacted =
                        get_user_interacted_book_names (interactions (rw_store w2)) user;
                      langs = get_user_languages py (users_languages (rw_store w2)) user;
                      recommendations = cascade py w2 n interacted langs sorted_user_ids [];
                      final_recommendations = py_prefix n recommendations
                  in if final_recommendations = [] then ([], w2)
                     else (final_recommendations,
                           w2\<lparr>rw_store := (rw_store w2)
                                \<lparr>rec_cache := (rec_cache (rw_store w2))
                                   (user \<mapsto> final_recommendations)\<rparr>\<rparr>)))"

subsection \<open>Writing the similarity entries (\<open>save_user_similarities\<close>)\<close>



subsection \<open>The recommender in the words of the specification\<close>


definition has_interacted :: "interaction list \<Rightarrow> user_id \<Rightarrow> string \<Rightarrow> bool" where
  "has_interacted coll u name = list_ex (\<lambda>i. i_user i = u \<and> i_book_name i = name) coll"

text \<open>The similar users of an entry whose score is at least 0.5, in the order of the
  entry.\<close>

definition similar_enough :: "user_id list \<Rightarrow> real list \<Rightarrow> user_id list" where
  "similar_enough ids scores = map fst (filter (\<lambda>p. 1 / 2 \<le> snd p) (zip ids scores))"

text \<open>The likes of a user that are looked at: the 100 newest.\<close>

definition newest_likes :: "interaction list \<Rightarrow> user_id \<Rightarrow> interaction list" where
  "newest_likes coll u =
     take 100
       (sort_key (\<lambda>i. - int (i_timestamp i))
          (filter (\<lambda>i. i_user i = u \<and> i_action i = Like) coll))"

text \<open>Each name once, at its first place.\<close>

fun first_by_name :: "book list \<Rightarrow> book list \<Rightarrow> book list" where
  "first_by_name acc [] = acc"
| "first_by_name acc (b # bs) =
     (if book_name b \<in> set (map book_name acc) then first_by_name acc bs
      else first_by_name (acc @ [b]) bs)"

text \<open>The catalogue records of the books a similar user likes, each name once, most
  popular first.\<close>

definition liked_catalog_books :: "rec_world \<Rightarrow> user_id \<Rightarrow> book list" where
  "liked_catalog_books w similar_user =
     sort_key (\<lambda>b. - popularity_score b)
       (first_by_name []
          (concat
             (map (\<lambda>i. case find (\<lambda>b. book_name b = i_book_name i) (rw_books w) of
                         None \<Rightarrow> []
                       | Some b \<Rightarrow> [b])
                (newest_likes (interactions (rw_store w)) similar_user))))"

text \<open>A book that may be recommended to the target user: he has no interaction with
  it and it passes the language check.\<close>

definition eligible :: "py_lib \<Rightarrow> rec_world \<Rightarrow> user_id \<Rightarrow> book \<Rightarrow> bool" where
  "eligible py w user b =
     (\<not> has_interacted (interactions (rw_store w)) user (book_name b) \<and>
      meets_language_requirement py b
        (get_user_languages py (users_languages (rw_store w)) user))"

text \<open>What a similar user contributes: his liked books that are eligible.\<close>

definition contribution :: "py_lib \<Rightarrow> rec_world \<Rightarrow> user_id \<Rightarrow> user_id \<Rightarrow> book list" where
  "contribution py w user similar_user =
     filter (eligible py w user) (liked_catalog_books w similar_user)"

definition cascade_spec ::
  "py_lib \<Rightarrow> rec_world \<Rightarrow> user_id \<Rightarrow> int \<Rightarrow> user_id list \<Rightarrow> real list \<Rightarrow> book list" where
  "cascade_spec py w user n ids scores =
     take (nat n)
       (first_by_name []
          (concat (map (contribution py w user) (similar_enough ids scores))))"



text \<open>There is nothing usable in the cache for the user.\<close>

definition cache_miss :: "rec_world \<Rightarrow> user_id \<Rightarrow> bool" where
  "cache_miss w user =
     (case rec_cache (rw_store w) user of None \<Rightarrow> True | Some cached \<Rightarrow> cached = [])"

subsection \<open>The scenario of the specification\<close>

text \<open>Users: the target 0, U1 = 1 and U2 = 2.  U1 likes B and C, U2 likes D, the target
  has seen C; the model is loaded and knows the three users.\<close>

definition scenario_book :: "nat \<Rightarrow> string \<Rightarrow> book" where
  "scenario_book i name =
     \<lparr>book_id = i, book_name = name, language_of_book = Some ''english'',
      popularity_score = 1\<rparr>"

definition scenario_like :: "user_id \<Rightarrow> string \<Rightarrow> nat \<Rightarrow> interaction" where
  "scenario_like u name t =
     \<lparr>i_user = u, i_book_name = name, i_book_author = ''X'', i_action = Like,
      i_timestamp = t, i_genres = []\<rparr>"

definition scenario_world :: rec_world where
  "scenario_world =
     \<lparr>rw_model_loaded = True,
      rw_user_mapping = {0, 1, 2},
      rw_model_files = Some {0, 1, 2},
      rw_similarities = [0 \<mapsto> ([1, 2], [9 / 10, 6 / 10])],
      rw_store = (empty_store {0, 1, 2})
        \<lparr>interactions :=
           [scenario_like 1 ''B'' 1, scenario_like 1 ''C'' 2, scenario_like 2 ''D'' 3,
            scenario_like 0 ''C'' 4]\<rparr>,
      rw_books = [scenario_book 1 ''B'', scenario_book 2 ''C'', scenario_book 3 ''D''],
      rw_script_exists = True,
      rw_training_runs = 0\<rparr>"

text \<open>A training run that succeeds, and a world with a newcomer: user 3 has liked one
  book and the loaded model does not know him.  User 7 has no interactions and is
  not known to the model either.\<close>

definition good_outcome :: training_outcome where
  "good_outcome =
     \<lparr>returncode = 0, files_after = Some {0, 1, 2, 3},
      similarities_after = [0 \<mapsto> ([1, 2], [9 / 10, 6 / 10]), 3 \<mapsto> ([1], [7 / 10])]\<rparr>"

definition newcomer_world :: rec_world where
  "newcomer_world =
     scenario_world\<lparr>rw_store := (rw_store scenario_world)
        \<lparr>interactions := interactions (rw_store scenario_world) @ [scenario_like 3 ''D'' 5]\<rparr>\<rparr>"






section \<open>Content-based similarity query (models/ContentBasedRecommender.py)\<close>

text \<open>
  The part of the recommender object the query reads and writes.  \<open>cb_faiss_indices\<close>
  is the dictionary \<open>faiss_indices\<close>: for each resident language the list \<open>ids\<close>
  aligned to the rows of its index (the index itself is searched through
  \<open>env_search\<close> below).  Book identifiers are natural numbers.
\<close>

record cb_engine =
  cb_model_loaded :: bool
  cb_faiss_indices :: "(string \<times> nat list) list"
  cb_loaded_languages :: "string set"
  cb_book_name_to_id :: "string \<rightharpoonup> nat"
  cb_book_index :: "nat set"
  cb_book_language_map :: "nat \<rightharpoonup> string"

text \<open>
  What the query gets from outside the class, for a vector type \<open>'v\<close>:
  the languages \<open>user_language_detector\<close> returns for the user; the object after
  \<open>load_model(user_id)\<close> (\<open>None\<close> when it returns \<open>False\<close>); the interaction and book
  collections; \<open>_transform_single_book_to_vector\<close> (\<open>None\<close> when it returns \<open>None\<close>); and
  the FAISS search on the index of a language with the query vector and \<open>k\<close>, which
  gives the pairs of \<open>zip(I[0], D[0])\<close>, a row position (a signed 64-bit integer, \<open>-1\<close>
  where FAISS has no neighbour) and a score, or raises (\<open>None\<close>).
\<close>

record 'v cb_env =
  env_user_languages :: "string set"
  env_load_model :: "cb_engine \<Rightarrow> cb_engine option"
  env_interactions :: "interaction list"
  env_catalog :: "book list"
  env_transform :: "book \<Rightarrow> 'v option"
  env_search :: "string \<Rightarrow> 'v \<Rightarrow> int \<Rightarrow> (int \<times> real) list option"

text \<open>\<open>xs[i]\<close> for a Python list and an integer: a negative index counts from the end,
  \<open>IndexError\<close> (here \<open>None\<close>) outside \<open>-len .. len - 1\<close>.\<close>

definition py_index :: "'a list \<Rightarrow> int \<Rightarrow> 'a option" where
  "py_index xs i =
     (let n = int (length xs)
      in if 0 \<le> i \<and> i < n then Some (xs ! nat i)
         else if - n \<le> i \<and> i < 0 then Some (xs ! nat (n + i))
         else None)"

text \<open>\<open>_get_most_recent_liked_book\<close> and \<open>_get_alternative_liked_book\<close>; \<open>pick\<close> stands
  for the choice of \<open>random.choice\<close>.\<close>

definition get_most_recent_liked_book :: "interaction list \<Rightarrow> user_id \<Rightarrow> string option" where
  "get_most_recent_liked_book coll user =
     (case get_user_interactions coll user Like 1 of
        [] \<Rightarrow> None
      | recent # _ \<Rightarrow> Some (i_book_name recent))"

definition get_alternative_liked_book ::
  "interaction list \<Rightarrow> user_id \<Rightarrow> nat \<Rightarrow> string option" where
  "get_alternative_liked_book coll user pick =
     (case get_user_interactions coll user Like 20 of
        [] \<Rightarrow> None
      | [only] \<Rightarrow> Some (i_book_name only)
      | first # alternative_books \<Rightarrow>
          Some (i_book_name (alternative_books ! (pick mod length alternative_books))))"

text \<open>The set comprehension \<open>candidate_book_ids\<close>: the identifiers at the positions below
  \<open>len(all_ids)\<close>, without the anchor.\<close>

fun candidate_book_ids :: "nat list \<Rightarrow> nat \<Rightarrow> int list \<Rightarrow> nat list option" where
  "candidate_book_ids all_ids base_book_id [] = Some []"
| "candidate_book_ids all_ids base_book_id (i # rest) =
     (if i < int (length all_ids)
      then (case py_index all_ids i of
              None \<Rightarrow> None
            | Some bid \<Rightarrow>
                map_option (\<lambda>r. if bid \<noteq> base_book_id then bid # r else r)
                  (candidate_book_ids all_ids base_book_id rest))
      else candidate_book_ids all_ids base_book_id rest)"

text \<open>\<open>_get_books_info_by_ids\<close>: the books of the collection with one of the
  identifiers, as a dictionary.\<close>

definition get_books_info_by_ids :: "book list \<Rightarrow> nat list \<Rightarrow> nat \<Rightarrow> book option" where
  "get_books_info_by_ids catalog ids bid =
     (if bid \<in> set ids then find (\<lambda>b. book_id b = bid) catalog else None)"

text \<open>The loop that builds the answer; an entry is the book with its similarity
  score.  \<open>None\<close> is an exception (\<open>IndexError\<close>, or \<open>TypeError\<close> on \<open>book["name"]\<close> when the
  book was not retrieved: the test \<open>if book\<close> comes after it).\<close>

fun build_recommendations ::
  "nat list \<Rightarrow> nat \<Rightarrow> (nat \<Rightarrow> book option) \<Rightarrow> string list \<Rightarrow> int \<Rightarrow>
   (int \<times> real) list \<Rightarrow> (book \<times> real) list \<Rightarrow> (book \<times> real) list option" where
  "build_recommendations all_ids base_book_id retrieved interacted limit [] recs = Some recs"
| "build_recommendations all_ids base_book_id retrieved interacted limit ((i, score) # rest) recs =
     (if i \<ge> int (length all_ids)
      then build_recommendations all_ids base_book_id retrieved interacted limit rest recs
      else (case py_index all_ids i of
              None \<Rightarrow> None
            | Some bid \<Rightarrow>
                if bid = base_book_id
                then build_recommendations all_ids base_book_id retrieved interacted limit rest recs
                else (case retrieved bid of
                        None \<Rightarrow> None
                      | Some b \<Rightarrow>
                          if book_name b \<in> set interacted
                          then build_recommendations all_ids base_book_id retrieved interacted
                                 limit rest recs
                          else
                            let recs1 = recs @ [(b, score)]
                            in if int (length recs1) \<ge> limit then Some recs1
                               else build_recommendations all_ids base_book_id retrieved
                                      interacted limit rest recs1)))"

text \<open>The choice of the index: the language of the anchor when an index of that
  language is resident, else English when it is, else none.\<close>

definition choose_base_lang :: "cb_engine \<Rightarrow> nat \<Rightarrow> string option" where
  "choose_base_lang e base_book_id =
     (let resident = map fst (cb_faiss_indices e);
          fallback = (if ''english'' \<in> set resident then Some ''english'' else None)
      in case cb_book_language_map e base_book_id of
           None \<Rightarrow> fallback
         | Some base_lang \<Rightarrow>
             if base_lang = [] \<or> base_lang \<notin> set resident then fallback else Some base_lang)"

text \<open>The search and the answer, once the anchor, its index and its vector are
  known: \<open>limit\<close> plus the number of books the user has interacted with are asked
  for.\<close>

definition query_index ::
  "'v cb_env \<Rightarrow> cb_engine \<Rightarrow> user_id \<Rightarrow> int \<Rightarrow> nat \<Rightarrow> string \<Rightarrow> 'v \<Rightarrow> (book \<times> real) list" where
  "query_index env e user limit base_book_id base_lang base_vector =
     (let interacted = get_user_interacted_book_names (env_interactions env) user;
          all_ids = (case map_of (cb_faiss_indices e) base_lang of
                       None \<Rightarrow> [] | Some ids \<Rightarrow> ids);
          k = limit + int (card (set interacted))
      in (case env_search env base_lang base_vector k of
            None \<Rightarrow> []
          | Some found \<Rightarrow>
              (case candidate_book_ids all_ids base_book_id (map fst found) of
                 None \<Rightarrow> []
               | Some candidates \<Rightarrow>
                   (case build_recommendations all_ids base_book_id
                           (get_books_info_by_ids (env_catalog env) candidates)
                           interacted limit found [] of
                      None \<Rightarrow> []
                    | Some recommendations \<Rightarrow> recommendations))))"

text \<open>The query once the model is in place.\<close>

definition similar_books ::
  "'v cb_env \<Rightarrow> cb_engine \<Rightarrow> user_id \<Rightarrow> int \<Rightarrow> bool \<Rightarrow> nat \<Rightarrow> (book \<times> real) list" where
  "similar_books env e user limit alternative pick =
     (case (if alternative then get_alternative_liked_book (env_interactions env) user pick
            else get_most_recent_liked_book (env_interactions env) user) of
        None \<Rightarrow> []
      | Some base_book_name \<Rightarrow>
          if base_book_name = [] then []
          else (case cb_book_name_to_id e base_book_name of
             None \<Rightarrow> []
           | Some base_book_id \<Rightarrow>
               if base_book_id \<notin> cb_book_index e then []
               else (case choose_base_lang e base_book_id of
                  None \<Rightarrow> []
                | Some base_lang \<Rightarrow>
                    (case find (\<lambda>b. book_id b = base_book_id) (env_catalog env) of
                       None \<Rightarrow> []
                     | Some base_book \<Rightarrow>
                         (case env_transform env base_book of
                            None \<Rightarrow> []
                          | Some base_vector \<Rightarrow>
                              query_index env e user limit base_book_id base_lang
                                base_vector)))))"

text \<open>\<open>get_similar_books_for_user\<close>: the decision to load the model again, the
  bookkeeping of the loaded languages, then the query.\<close>

definition get_similar_books_for_user ::
  "'v cb_env \<Rightarrow> cb_engine \<Rightarrow> user_id \<Rightarrow> int \<Rightarrow> bool \<Rightarrow> nat \<Rightarrow> (book \<times> real) list \<times> cb_engine" where
  "get_similar_books_for_user env e user limit alternative pick =
     (let user_languages = env_user_languages env;
          needs_reload =
            (if \<not> cb_model_loaded e then True
             else if cb_faiss_indices e = [] then True
             else if \<not> user_languages \<subseteq> cb_loaded_languages e
             then user_languages - cb_loaded_languages e \<noteq> {}
             else False);
          e1 = (if cb_model_loaded e \<and> user_languages \<noteq> {}
                then e\<lparr>cb_loaded_languages := cb_loaded_languages e \<union> user_languages\<rparr>
                else e)
      in if needs_reload
         then (case env_load_model env e1 of
                 None \<Rightarrow> ([], e1)
               | Some loaded \<Rightarrow>
                   let e2 = loaded\<lparr>cb_model_loaded := True,
                                   cb_loaded_languages := user_languages\<rparr>
                   in (similar_books env e2 user limit alternative pick, e2))
         else
           (let e2 = (if user_languages \<noteq> {}
                      then e1\<lparr>cb_loaded_languages := cb_loaded_languages e1 \<union> user_languages\<rparr>
                      else e1)
            in (similar_books env e2 user limit alternative pick, e2)))"

subsection \<open>A small index\<close>

text \<open>User 0 has liked the book A (identifier 1).  The English index holds the two
  books A and B (identifier 2).  With \<open>limit = 2\<close> and one interaction the search asks
  for three neighbours; the index has two rows, so FAISS fills the third place with
  the position \<open>-1\<close>.\<close>

definition small_engine :: cb_engine where
  "small_engine =
     \<lparr>cb_model_loaded = True,
      cb_faiss_indices = [(''english'', [1, 2])],
      cb_loaded_languages = {''english''},
      cb_book_name_to_id = [''A'' \<mapsto> 1, ''B'' \<mapsto> 2],
      cb_book_index = {1, 2},
      cb_book_language_map = [1 \<mapsto> ''english'', 2 \<mapsto> ''english'']\<rparr>"

definition small_env :: "unit cb_env" where
  "small_env =
     \<lparr>env_user_languages = {''english''},
      env_load_model = (\<lambda>e. Some e),
      env_interactions = [scenario_like 0 ''A'' 1],
      env_catalog = [scenario_book 1 ''A'', scenario_book 2 ''B''],
      env_transform = (\<lambda>b. Some ()),
      env_search = (\<lambda>lang v k. Some (take (nat k) [(0, 1), (1, 8 / 10), (- 1, - 1)]))\<rparr>"

text \<open>The same user with a second interaction (an older like of the book C, which is
  in no index) and a search that returns the two rows of the index.\<close>

definition small_env2 :: "unit cb_env" where
  "small_env2 =
     small_env\<lparr>env_interactions := [scenario_like 0 ''A'' 2, scenario_like 0 ''C'' 1],
               env_search := (\<lambda>lang v k. Some (take (nat k) [(0, 1), (1, 8 / 10)]))\<rparr>"

text \<open>What holds of every entry of an answer: it is not the anchor, its name is not
  among the books the user has interacted with, and it stands at a position of the
  search result that is below the length of the identifier list.\<close>

definition entry_ok ::
  "nat list \<Rightarrow> nat \<Rightarrow> string list \<Rightarrow> (int \<times> real) list \<Rightarrow> book \<times> real \<Rightarrow> bool" where
  "entry_ok all_ids base_book_id interacted found entry =
     (book_id (fst entry) \<noteq> base_book_id \<and>
      book_name (fst entry) \<notin> set interacted \<and>
      list_ex (\<lambda>(i, score). score = snd entry \<and> i < int (length all_ids) \<and>
                 py_index all_ids i = Some (book_id (fst entry))) found)"


section \<open>Streaming training of the content model (ContentBasedRecommender.train\_model)\<close>























subsection \<open>A run that fails in the stream phase\<close>






section \<open>Properties of the interaction counter\<close>







subsection \<open>Concurrent calls\<close>

lemma conc_measure_decreases: "conc_step c c' \<Longrightarrow> conc_measure c' < conc_measure c"
  by (induction rule: conc_step.induct) (auto simp: conc_measure_def)

lemma calls_at_empty [simp]: "calls_at P {#} = 0"
  by (simp add: calls_at_def)

lemma calls_at_add [simp]:
  "calls_at P (add_mset p M) = (if P p then Suc (calls_at P M) else calls_at P M)"
  by (simp add: calls_at_def)

lemma calls_at_replicate [simp]:
  "calls_at P (replicate_mset n x) = (if P x then n else 0)"
  by (induction n) auto

lemma calls_at_le_size: "calls_at P M \<le> size M"
  by (simp add: calls_at_def size_filter_mset_lesseq)

lemma calls_at_pos: "calls_at P M \<noteq> 0 \<Longrightarrow> \<exists>p. p \<in># M \<and> P p"
  by (induction M) (auto split: if_splits)

lemma crossed_le_started: "calls_at crossed M \<le> calls_at has_started M"
  by (induction M) (auto elim: crossed.elims)

lemma awaiting_past_le_crossed:
  "calls_at awaiting_flag M + calls_at past_reset M \<le> calls_at crossed M"
  by (induction M) (auto elim: awaiting_flag.elims past_reset.elims)

lemma returned_le_past: "calls_at returned_true M \<le> calls_at past_reset M"
  by (induction M) (auto elim: returned_true.elims)

lemma all_returned_counts:
  "calls_at (\<lambda>p. \<not> is_returned p) M = 0 \<Longrightarrow>
   calls_at has_started M = size M \<and> calls_at crossed M = calls_at returned_true M"
proof (induction M)
  case empty
  then show ?case by simp
next
  case (add p M)
  then show ?case by (cases p) (auto split: if_splits)
qed

lemma conc_inv_start:
  assumes "counter s = Some d" and "current_count d = 0" and "threshold d = T" and "T \<ge> 1"
    and "\<not> training_in_progress s"
  shows "conc_inv T (nat T) (length (training_threads s)) (conc_start s (nat T) 0)"
  using assms by (auto simp: conc_inv_def conc_start_def Let_def trainings_triggered_def)

lemmas conc_inv_defs = conc_inv_def Let_def trainings_triggered_def

lemma conc_inv_step:
  "conc_step c c' \<Longrightarrow> T = int N \<Longrightarrow> conc_inv T N k0 c \<Longrightarrow> conc_inv T N k0 c'"
proof (induction rule: conc_step.induct)
  case (inc c rest d)
  then show ?case
    using calls_at_le_size[of has_started rest] crossed_le_started[of rest]
      awaiting_past_le_crossed[of rest] returned_le_past[of rest]
    by (auto simp: conc_inv_defs nonempty_has_size)
next
  case (no_document c rest)
  then show ?case by (auto simp: conc_inv_defs)
next
  case (below_threshold c n t rest)
  then show ?case
    using calls_at_le_size[of has_started rest] crossed_le_started[of rest]
      awaiting_past_le_crossed[of rest] returned_le_past[of rest]
    by (auto simp: conc_inv_defs)
next
  case (already_training c n t rest)
  then show ?case
    using calls_at_le_size[of has_started rest] crossed_le_started[of rest]
      awaiting_past_le_crossed[of rest] returned_le_past[of rest]
    by (auto simp: conc_inv_defs)
next
  case (take_flag c n t rest)
  then show ?case
    using calls_at_le_size[of has_started rest] crossed_le_started[of rest]
      awaiting_past_le_crossed[of rest] returned_le_past[of rest]
    by (auto simp: conc_inv_defs)
next
  case (reset c n rest)
  then show ?case
    using calls_at_le_size[of has_started rest] crossed_le_started[of rest]
      awaiting_past_le_crossed[of rest] returned_le_past[of rest]
    by (auto simp: conc_inv_defs reset_counter_def)
next
  case (start_thread c n rest)
  then show ?case
    using calls_at_le_size[of has_started rest] crossed_le_started[of rest]
      awaiting_past_le_crossed[of rest] returned_le_past[of rest]
    by (auto simp: conc_inv_defs)
next
  case (training_ends c ok)
  then show ?case by (auto simp: conc_inv_defs execute_training_end_def)
qed

lemma conc_inv_reachable:
  assumes "conc_step\<^sup>*\<^sup>* c0 c" and "conc_inv (int N) N k0 c0"
  shows "conc_inv (int N) N k0 c"
  using assms by (induction rule: rtranclp_induct) (auto intro: conc_inv_step)

lemma conc_progress: "\<not> all_returned c \<Longrightarrow> \<exists>c'. conc_step c c'"
proof -
  assume "\<not> all_returned c"
  then obtain p where p: "p \<in># calls c" "\<not> is_returned p"
    using calls_at_pos[of "\<lambda>p. \<not> is_returned p" "calls c"] by (auto simp: all_returned_def)
  then obtain rest where rest: "calls c = add_mset p rest"
    by (meson mset_add)
  show ?thesis
  proof (cases p)
    case Start
    then show ?thesis using rest conc_step.inc conc_step.no_document
      by (cases "counter (shared c)") blast+
  next
    case (Incremented n t)
    then show ?thesis
      using rest conc_step.below_threshold conc_step.already_training conc_step.take_flag
      by blast
  next
    case (HoldsFlag n)
    then show ?thesis using rest conc_step.reset by blast
  next
    case (CounterReset n)
    then show ?thesis using rest conc_step.start_thread by blast
  next
    case (Returned b)
    then show ?thesis using p by simp
  qed
qed

text \<open>
  Claim C5, as amended.  Let the instance be idle (\<open>_training_in_progress\<close> is \<open>False\<close> and no
  background thread is running), its counter at 0 and its threshold \<open>T \<ge> 1\<close>, and let
  \<open>T\<close> calls of \<open>increment_counter\<close> run concurrently, their atomic steps interleaved
  in any order, together with the end of any training that was started.  In every
  state that can be reached at most one training has been triggered since the calls
  were made.  Once all calls have returned, exactly one training has been triggered,
  exactly one call has returned \<open>True\<close>, and the counter is back at 0.  As long as
  some call has not returned, a step is possible (and by \<open>conc_measure_decreases\<close>
  every interleaving is finite), so the calls do all return.
\<close>

theorem concurrent_increments_trigger_once:
  assumes "counter s = Some d" and "current_count d = 0" and "threshold d = T" and "T \<ge> 1"
    and "\<not> training_in_progress s"
    and "conc_step\<^sup>*\<^sup>* (conc_start s (nat T) 0) c"
  shows "length (new_trainings s c) \<le> 1 \<and>
         (all_returned c \<longrightarrow>
            length (new_trainings s c) = 1 \<and> calls_at returned_true (calls c) = 1 \<and>
            get_current_count (shared c) = 0) \<and>
         (\<not> all_returned c \<longrightarrow> (\<exists>c'. conc_step c c'))"
proof -
  have T: "int (nat T) = T" using assms(4) by simp
  let ?k0 = "length (training_threads s)"
  have inv: "conc_inv (int (nat T)) (nat T) ?k0 c"
    using conc_inv_reachable[OF assms(6), of "nat T" ?k0, unfolded T]
      conc_inv_start[OF assms(1-5)]
    unfolding T by blast
  let ?cs = "calls c"
  from inv have k: "calls_at crossed ?cs \<le> 1"
    and trig: "trainings_triggered c = ?k0 + calls_at returned_true ?cs"
    by (auto simp: conc_inv_def Let_def)
  have new: "length (new_trainings s c) = calls_at returned_true ?cs"
    using trig by (simp add: new_trainings_def trainings_triggered_def)
  have le: "calls_at returned_true ?cs \<le> calls_at crossed ?cs"
    using returned_le_past[of ?cs] awaiting_past_le_crossed[of ?cs] by simp
  have safe: "length (new_trainings s c) \<le> 1" using k new le by simp
  have fin: "length (new_trainings s c) = 1 \<and> calls_at returned_true ?cs = 1 \<and>
             get_current_count (shared c) = 0" if "all_returned c"
  proof -
    from that have z: "calls_at (\<lambda>p. \<not> is_returned p) ?cs = 0"
      by (simp add: all_returned_def)
    note ar = all_returned_counts[OF z]
    from inv ar have "calls_at crossed ?cs \<noteq> 0"
      by (auto simp: conc_inv_def Let_def)
    with k have k1: "calls_at crossed ?cs = 1" by simp
    with ar have rt: "calls_at returned_true ?cs = 1" by simp
    with returned_le_past[of ?cs] have "calls_at past_reset ?cs > 0" by simp
    with inv have "get_current_count (shared c) = 0"
      by (auto simp: conc_inv_def Let_def get_current_count_def)
    with rt new show ?thesis by simp
  qed
  show ?thesis using safe fin conc_progress by blast
qed

text \<open>
  The claim speaks of a counter starting at 0 and says nothing of a training in
  progress.  On the instance \<open>busy_counter_state\<close> the counter is at 0 and the
  threshold is 2, and the training that the last trigger started is still running.
  Two concurrent calls increment the counter to 1 and to 2; the first is below the
  threshold, the second finds \<open>_training_in_progress\<close> set and gives up.  Both return
  \<open>False\<close>, no training has been triggered, and the counter stays at 2.
\<close>

theorem busy_start_triggers_none:
  "get_current_count busy_counter_state = 0 \<and>
   threshold_of busy_counter_state = 2 \<and>
   conc_step\<^sup>*\<^sup>* (conc_start busy_counter_state 2 1)
     \<lparr>shared = busy_counter_state
                \<lparr>counter := Some \<lparr>current_count = 2, threshold = 2, total_retrainings = 0\<rparr>\<rparr>,
      calls = {#Returned False, Returned False#}, running = 1\<rparr> \<and>
   all_returned
     \<lparr>shared = busy_counter_state
                \<lparr>counter := Some \<lparr>current_count = 2, threshold = 2, total_retrainings = 0\<rparr>\<rparr>,
      calls = {#Returned False, Returned False#}, running = 1\<rparr> \<and>
   new_trainings busy_counter_state
     \<lparr>shared = busy_counter_state
                \<lparr>counter := Some \<lparr>current_count = 2, threshold = 2, total_retrainings = 0\<rparr>\<rparr>,
      calls = {#Returned False, Returned False#}, running = 1\<rparr> = []"
proof -
  let ?d0 = "\<lparr>current_count = 0, threshold = 2, total_retrainings = 0\<rparr>"
  let ?d1 = "\<lparr>current_count = 1, threshold = 2, total_retrainings = 0\<rparr>"
  let ?d2 = "\<lparr>current_count = 2, threshold = 2, total_retrainings = 0\<rparr>"
  let ?sh = "\<lambda>d. \<lparr>counter = Some d, training_in_progress = True, training_threads = [2]\<rparr>"
  let ?c0 = "conc_start busy_counter_state 2 1"
  let ?c1 = "\<lparr>shared = ?sh ?d1, calls = {#Incremented 1 2, Start#}, running = 1\<rparr>"
  let ?c2 = "\<lparr>shared = ?sh ?d2, calls = {#Incremented 2 2, Incremented 1 2#}, running = 1\<rparr>"
  let ?c3 = "\<lparr>shared = ?sh ?d2, calls = {#Returned False, Incremented 2 2#}, running = 1\<rparr>"
  let ?c4 = "\<lparr>shared = ?sh ?d2, calls = {#Returned False, Returned False#}, running = 1\<rparr>"
  have two: "replicate_mset 2 Start = {#Start, Start#}"
    by (simp add: numeral_2_eq_2)
  have s1: "conc_step ?c0 ?c1"
    using conc_step.inc[of ?c0 "{#Start#}" ?d0]
    by (simp add: conc_start_def busy_counter_state_def two)
  have s2: "conc_step ?c1 ?c2"
    using conc_step.inc[of ?c1 "{#Incremented 1 2#}" ?d1] by simp
  have s3: "conc_step ?c2 ?c3"
    using conc_step.below_threshold[of ?c2 1 2 "{#Incremented 2 2#}"] by simp
  have s4: "conc_step ?c3 ?c4"
    using conc_step.already_training[of ?c3 2 2 "{#Returned False#}"] by simp
  have reach: "conc_step\<^sup>*\<^sup>* ?c0 ?c4"
    using s1 s2 s3 s4 by (meson rtranclp.rtrancl_into_rtrancl rtranclp.rtrancl_refl)
  have sh: "busy_counter_state\<lparr>counter := Some ?d2\<rparr> = ?sh ?d2"
    by (simp add: busy_counter_state_def)
  show ?thesis
    using reach unfolding sh
    by (simp add: all_returned_def new_trainings_def busy_counter_state_def
        get_current_count_def threshold_of_def)
qed

text \<open>An interleaved run of two calls on the idle instance with threshold 2: both calls
  increment before either compares; the call that got 2 takes the flag, the call that
  got 1 returns \<open>False\<close>, then the first resets the counter and starts the thread.\<close>

theorem concurrent_increments_trigger_once_witness:
  "counter idle_counter_state =
     Some \<lparr>current_count = 0, threshold = 2, total_retrainings = 0\<rparr> \<and>
   \<not> training_in_progress idle_counter_state \<and>
   conc_step\<^sup>*\<^sup>* (conc_start idle_counter_state (nat 2) 0)
     \<lparr>shared = idle_counter_state\<lparr>training_in_progress := True, training_threads := [2]\<rparr>,
      calls = {#Returned True, Returned False#}, running = 1\<rparr> \<and>
   all_returned
     \<lparr>shared = idle_counter_state\<lparr>training_in_progress := True, training_threads := [2]\<rparr>,
      calls = {#Returned True, Returned False#}, running = 1\<rparr> \<and>
   new_trainings idle_counter_state
     \<lparr>shared = idle_counter_state\<lparr>training_in_progress := True, training_threads := [2]\<rparr>,
      calls = {#Returned True, Returned False#}, running = 1\<rparr> = [2] \<and>
   calls_at returned_true {#Returned True, Returned False#} = 1"
proof -
  let ?d0 = "\<lparr>current_count = 0, threshold = 2, total_retrainings = 0\<rparr>"
  let ?d1 = "\<lparr>current_count = 1, threshold = 2, total_retrainings = 0\<rparr>"
  let ?d2 = "\<lparr>current_count = 2, threshold = 2, total_retrainings = 0\<rparr>"
  let ?sh = "\<lambda>d f ts. \<lparr>counter = Some d, training_in_progress = f, training_threads = ts\<rparr>"
  let ?c0 = "conc_start idle_counter_state (nat 2) 0"
  let ?c1 = "\<lparr>shared = ?sh ?d1 False [], calls = {#Incremented 1 2, Start#}, running = 0\<rparr>"
  let ?c2 = "\<lparr>shared = ?sh ?d2 False [],
             calls = {#Incremented 2 2, Incremented 1 2#}, running = 0\<rparr>"
  let ?c3 = "\<lparr>shared = ?sh ?d2 True [],
             calls = {#HoldsFlag 2, Incremented 1 2#}, running = 0\<rparr>"
  let ?c4 = "\<lparr>shared = ?sh ?d2 True [],
             calls = {#Returned False, HoldsFlag 2#}, running = 0\<rparr>"
  let ?c5 = "\<lparr>shared = ?sh ?d0 True [],
             calls = {#CounterReset 2, Returned False#}, running = 0\<rparr>"
  let ?c6 = "\<lparr>shared = ?sh ?d0 True [2],
             calls = {#Returned True, Returned False#}, running = 1\<rparr>"
  have two: "replicate_mset (nat 2) Start = {#Start, Start#}"
    "replicate_mset 2 Start = {#Start, Start#}"
    by (simp_all add: numeral_2_eq_2)
  have s1: "conc_step ?c0 ?c1"
    using conc_step.inc[of ?c0 "{#Start#}" ?d0]
    by (simp add: conc_start_def idle_counter_state_def two)
  have s2: "conc_step ?c1 ?c2"
    using conc_step.inc[of ?c1 "{#Incremented 1 2#}" ?d1] by simp
  have s3: "conc_step ?c2 ?c3"
    using conc_step.take_flag[of ?c2 2 2 "{#Incremented 1 2#}"] by simp
  have s4: "conc_step ?c3 ?c4"
    using conc_step.below_threshold[of ?c3 1 2 "{#HoldsFlag 2#}"] by simp
  have s5: "conc_step ?c4 ?c5"
    using conc_step.reset[of ?c4 2 "{#Returned False#}"] by (simp add: reset_counter_def)
  have s6: "conc_step ?c5 ?c6"
    using conc_step.start_thread[of ?c5 2 "{#Returned False#}"] by simp
  have reach: "conc_step\<^sup>*\<^sup>* ?c0 ?c6"
    using s1 s2 s3 s4 s5 s6 by (meson rtranclp.rtrancl_into_rtrancl rtranclp.rtrancl_refl)
  have sh: "idle_counter_state\<lparr>training_in_progress := True, training_threads := [2]\<rparr> =
            ?sh ?d0 True [2]"
    by (simp add: idle_counter_state_def)
  have a: "counter idle_counter_state = Some ?d0" by (simp add: idle_counter_state_def)
  have b: "current_count ?d0 = 0" by simp
  have c: "threshold ?d0 = 2" by simp
  have d: "(2::int) \<ge> 1" by simp
  have e: "\<not> training_in_progress idle_counter_state" by (simp add: idle_counter_state_def)
  have ar: "all_returned ?c6" by (simp add: all_returned_def)
  have len1: "new_trainings idle_counter_state ?c6 = [2]"
    by (simp add: new_trainings_def idle_counter_state_def)
  from concurrent_increments_trigger_once[OF a b c d e reach] ar
  show ?thesis using reach a e len1 unfolding sh by simp
qed

section \<open>Properties of the sorted author preferences\<close>

lemma ascii_lib_sel [simp]:
  "str_strip ascii_lib = ascii_strip"
  "str_lower ascii_lib = ascii_lower"
  "name_match ascii_lib = (\<lambda>pattern_name name. ascii_lower pattern_name = ascii_lower name)"
  by (simp_all add: ascii_lib_def)

subsection \<open>update keeps the invariant\<close>

lemma author_list_ok_iff:
  "author_list_ok xs \<longleftrightarrow>
     (\<forall>e \<in> set xs. preference_count e \<ge> 1) \<and>
     sorted_wrt (\<lambda>x y. preference_count x \<ge> preference_count y) xs"
  by (cases xs) (auto simp: author_list_ok_def list_all_iff)

lemma sorted_sort_by_count_desc:
  "sorted_wrt (\<lambda>x y. preference_count x \<ge> preference_count y) (sort_by_count_desc xs)"
proof -
  have "sorted (map (\<lambda>x. - preference_count x) (sort_by_count_desc xs))"
    by (simp add: sort_by_count_desc_def)
  then show ?thesis by (simp add: sorted_map)
qed

lemma set_sort_by_count_desc [simp]: "set (sort_by_count_desc xs) = set xs"
  by (simp add: sort_by_count_desc_def)

lemma mset_sort_by_count_desc [simp]: "mset (sort_by_count_desc xs) = mset xs"
  by (simp add: sort_by_count_desc_def)

lemma sorted_wrt_remove_nth:
  "sorted_wrt P xs \<Longrightarrow> sorted_wrt P (take i xs @ drop (Suc i) xs)"
proof -
  assume s: "sorted_wrt P xs"
  have "sorted_wrt P (take i xs @ drop i xs)" using s by simp
  then have a: "sorted_wrt P (take i xs)" and b: "sorted_wrt P (drop i xs)"
    and c: "\<forall>x \<in> set (take i xs). \<forall>y \<in> set (drop i xs). P x y"
    unfolding sorted_wrt_append by blast+
  have d: "set (drop (Suc i) xs) \<subseteq> set (drop i xs)"
    by (simp add: set_drop_subset_set_drop)
  have e: "sorted_wrt P (drop (Suc i) xs)"
    using s by (simp add: sorted_wrt_drop)
  show ?thesis
    unfolding sorted_wrt_append using a c d e by blast
qed

lemma author_index_Some:
  "author_index a xs = Some i \<Longrightarrow> i < length xs \<and> author_name (xs ! i) = a"
  by (induction xs arbitrary: i) (auto split: if_splits)

lemma preference_count_touch [simp]:
  "preference_count (touch_author w b e) = max (preference_count e + w) 0"
  by (simp add: touch_author_def Let_def)

lemma author_name_touch [simp]: "author_name (touch_author w b e) = author_name e"
  by (simp add: touch_author_def Let_def)

lemma update_found_ok:
  assumes "author_list_ok xs" and "i < length xs"
  shows "author_list_ok (update_found w b i xs)"
proof (cases "preference_count (touch_author w b (xs ! i)) \<le> 0")
  case True
  then have "update_found w b i xs = take i xs @ drop (Suc i) xs"
    by (simp add: update_found_def Let_def)
  then show ?thesis
    using assms sorted_wrt_remove_nth[of _ xs i]
    by (auto simp: author_list_ok_iff dest: in_set_takeD in_set_dropD)
next
  case False
  then have eq: "update_found w b i xs = sort_by_count_desc (xs[i := touch_author w b (xs ! i)])"
    by (simp add: update_found_def Let_def)
  have "\<forall>e \<in> set (xs[i := touch_author w b (xs ! i)]). preference_count e \<ge> 1"
  proof
    fix e assume "e \<in> set (xs[i := touch_author w b (xs ! i)])"
    then have "e \<in> insert (touch_author w b (xs ! i)) (set xs)"
      using set_update_subset_insert by fastforce
    then show "preference_count e \<ge> 1"
      using False assms by (auto simp: author_list_ok_iff)
  qed
  then show ?thesis
    by (simp add: eq author_list_ok_iff sorted_sort_by_count_desc)
qed

lemma update_keeps_prefs_ok:
  assumes "prefs_ok coll user"
  shows "prefs_ok (snd (update_author_preference py coll user a act b)) user"
proof -
  have new: "author_list_ok (sort_by_count_desc (xs @ [new_author n 1 b]))" if "author_list_ok xs" for xs n
    using that by (auto simp: author_list_ok_iff sorted_sort_by_count_desc new_author_def)
  show ?thesis
    using assms
    by (cases act)
       (auto simp: update_author_preference_def prefs_ok_def Let_def author_list_ok_iff[of "[_]"]
          author_list_ok_iff[of "[]"] new update_found_ok
          dest: author_index_Some split: option.splits)
qed

lemma updates_keep_prefs_ok:
  "prefs_ok coll user \<Longrightarrow> list_all is_update ops \<Longrightarrow> prefs_ok (apply_pref_ops py user ops coll) user"
proof (induction ops arbitrary: coll)
  case Nil
  then show ?case by simp
next
  case (Cons x xs)
  then show ?case by (cases x) (auto intro: update_keeps_prefs_ok)
qed

text \<open>
  Claim C3.  The invariant (every entry has a count of at least 1, the list is sorted
  by count, greatest first, the first entry is the most preferred author) is kept by
  \<open>update_author_preference\<close> (lemma \<open>updates_keep_prefs_ok\<close>), which removes an entry at
  count 0 and sorts the list again.  \<open>remove_author_preference\<close> does neither: after
  one like of a book by X the list is fine, and after the removal of that like the
  entry of X is still there with count 0.  With two likes for X and one for Y, the
  removal of both likes of X leaves X, count 0, in front of Y, count 1.
\<close>

theorem remove_breaks_author_invariant:
  "prefs_ok (apply_pref_ops ascii_lib 0 [Update ''X'' Like ''A''] Map.empty) 0 \<and>
   \<not> prefs_ok (apply_pref_ops ascii_lib 0 [Update ''X'' Like ''A'', Remove ''X'' Like ''A''] Map.empty) 0 \<and>
   map (\<lambda>e. (author_name e, preference_count e))
       (case apply_pref_ops ascii_lib 0
               [Update ''X'' Like ''A'', Update ''X'' Like ''B'', Update ''Y'' Like ''C'',
                Remove ''X'' Like ''A'', Remove ''X'' Like ''B''] Map.empty 0 of
          None \<Rightarrow> [] | Some prefs \<Rightarrow> sorted_authors prefs)
     = [(''X'', 0), (''Y'', 1)]"
  by (simp add: prefs_ok_def update_author_preference_def remove_author_preference_def
        ascii_strip_def is_space_def author_list_ok_def pull_and_inc_def author_index.simps
        update_found_def touch_author_def sort_by_count_desc_def new_author_def Let_def)

subsection \<open>Net counts\<close>

lemma fst_count_table [simp]: "map fst (count_table xs) = map author_name xs"
  by (simp add: count_table_def comp_def)

lemma count_table_simps [simp]:
  "count_table [] = []"
  "count_table (e # es) = (author_name e, preference_count e) # count_table es"
  "count_table (xs @ ys) = count_table xs @ count_table ys"
  by (simp_all add: count_table_def)










lemma author_name_pull_and_inc [simp]:
  "author_name (pull_and_inc b act book e) = author_name e"
  by (simp add: pull_and_inc_def Let_def)



lemma names_pull_and_inc [simp]:
  "map author_name (map (pull_and_inc b act book) xs) = map author_name xs"
  by (induction xs) simp_all



lemma names_pull_and_inc_comp [simp]:
  "map (author_name \<circ> pull_and_inc b act book) xs = map author_name xs"
  by (induction xs) simp_all



section \<open>Properties of \<open>like_book\<close> and \<open>dislike_book\<close>\<close>

lemma update_user_language_keeps [simp]:
  "interactions (update_user_language py catalog s user name) = interactions s"
  "liked_genres (update_user_language py catalog s user name) = liked_genres s"
  "disliked_genres (update_user_language py catalog s user name) = disliked_genres s"
  "author_prefs (update_user_language py catalog s user name) = author_prefs s"
  "counter_st (update_user_language py catalog s user name) = counter_st s"
  "rec_cache (update_user_language py catalog s user name) = rec_cache s"
  "author_cache (update_user_language py catalog s user name) = author_cache s"
  by (simp_all add: update_user_language_def split: option.splits)

lemma find_interaction_language [simp]:
  "find_interaction (update_user_language py catalog s user name) u n = find_interaction s u n"
  by (simp add: find_interaction_def)












text \<open>
  The removal at count 0 that \<open>remove_author_preference\<close> leaves out shows through
  \<open>dislike_book\<close> as soon as the author's name has more than one character: the
  update that follows the removal is made for \<open>book_author[0]\<close>, the first character, so
  nothing takes the entry of the author away and \<open>get_top\<close> returns it with count 0.
\<close>

lemma overwritten_like_leaves_zero_entry:
  "map_option (\<lambda>e. (author_name e, preference_count e))
     (get_top
        (snd (dislike_book ascii_lib [] 2
                (snd (like_book ascii_lib [] 1 (empty_store {0}) 0 ''A'' ''Xavier'' (GenresStr ''Fantasy'')))
                0 ''A'' ''Xavier'' (GenresStr ''Fantasy'')))
        0)
   = Some (''Xavier'', 0)"
  by code_simp


section \<open>Properties of the cascade recommender\<close>

lemma first_by_name_prefix: "\<exists>zs. first_by_name acc xs = acc @ zs"
proof (induction xs arbitrary: acc)
  case Nil
  then show ?case by simp
next
  case (Cons b bs)
  show ?case
  proof (cases "book_name b \<in> set (map book_name acc)")
    case True
    then show ?thesis using Cons.IH[of acc] by simp
  next
    case False
    obtain zs where "first_by_name (acc @ [b]) bs = (acc @ [b]) @ zs"
      using Cons.IH[of "acc @ [b]"] by blast
    then show ?thesis using False by simp
  qed
qed

lemma take_first_by_name_full:
  "length acc \<ge> k \<Longrightarrow> take k (first_by_name acc xs) = take k acc"
  using first_by_name_prefix[of acc xs] by auto

lemma first_by_name_append:
  "first_by_name acc (xs @ ys) = first_by_name (first_by_name acc xs) ys"
  by (induction xs arbitrary: acc) auto

lemma list_ex_name: "list_ex (\<lambda>r. book_name r = book_name b) recs \<longleftrightarrow> book_name b \<in> set (map book_name recs)"
  by (induction recs) auto

lemma add_books_take:
  "length recs \<le> nat n \<Longrightarrow>
   add_books py n langs bs recs =
     take (nat n) (first_by_name recs (filter (\<lambda>b. meets_language_requirement py b langs) bs))"
proof (induction bs arbitrary: recs)
  case Nil
  then show ?case by simp
next
  case (Cons b bs)
  show ?case
  proof (cases "int (length recs) \<ge> n")
    case True
    then have "length recs \<ge> nat n" by simp
    then show ?thesis
      using True Cons.prems take_first_by_name_full[of "nat n" recs] by simp
  next
    case False
    then have lt: "length (recs @ [b]) \<le> nat n" by simp
    show ?thesis
      using False Cons.IH[OF Cons.prems] Cons.IH[OF lt]
      by (simp add: list_ex_name)
  qed
qed

lemma cascade_take:
  "length recs \<le> nat n \<Longrightarrow>
   cascade py w n interacted langs us recs =
     take (nat n)
       (first_by_name recs
          (concat (map (\<lambda>u. filter (\<lambda>b. meets_language_requirement py b langs)
                               (liked_books_of w interacted u)) us)))"
proof (induction us arbitrary: recs)
  case Nil
  then show ?case by simp
next
  case (Cons u us)
  let ?X = "filter (\<lambda>b. meets_language_requirement py b langs) (liked_books_of w interacted u)"
  let ?rest = "concat (map (\<lambda>u. filter (\<lambda>b. meets_language_requirement py b langs)
                               (liked_books_of w interacted u)) us)"
  let ?F = "first_by_name recs ?X"
  show ?case
  proof (cases "int (length recs) \<ge> n")
    case True
    then have "length recs \<ge> nat n" by simp
    then show ?thesis
      using True Cons.prems take_first_by_name_full[of "nat n" recs] by simp
  next
    case False
    have r1: "add_books py n langs (liked_books_of w interacted u) recs = take (nat n) ?F"
      using add_books_take[OF Cons.prems] .
    show ?thesis
    proof (cases "int (length (take (nat n) ?F)) \<ge> n")
      case True
      then have "length ?F \<ge> nat n" by simp
      then have "take (nat n) (first_by_name ?F ?rest) = take (nat n) ?F"
        by (rule take_first_by_name_full)
      then show ?thesis using False True r1 by (simp add: first_by_name_append Let_def)
    next
      case F2: False
      then have short: "length ?F < nat n" by auto
      then have eq: "take (nat n) ?F = ?F" by simp
      have "cascade py w n interacted langs us ?F = take (nat n) (first_by_name ?F ?rest)"
        using Cons.IH[of ?F] short by simp
      then show ?thesis using False F2 r1 eq by (simp add: first_by_name_append Let_def)
    qed
  qed
qed

lemma get_book_info_name: "get_book_info catalog name = Some info \<Longrightarrow> book_name info = name"
  unfolding get_book_info_def by (induction catalog) (auto split: if_splits)

lemma gather_liked_filter:
  "gather_liked catalog interacted names (filter (\<lambda>b. book_name b \<notin> set interacted) acc) =
   filter (\<lambda>b. book_name b \<notin> set interacted) (gather_liked catalog [] names acc)"
proof (induction names arbitrary: acc)
  case Nil
  then show ?case by simp
next
  case (Cons name names)
  show ?case
  proof (cases "name \<in> set interacted")
    case True
    then show ?thesis
      using Cons.IH[of acc] Cons.IH[of "acc @ [the (get_book_info catalog name)]"]
      by (auto simp: get_book_info_name split: option.splits)
  next
    case False
    then have mem: "name \<in> book_name ` set (filter (\<lambda>b. book_name b \<notin> set interacted) acc)
        \<longleftrightarrow> name \<in> book_name ` set acc" by auto
    show ?thesis
      using False mem Cons.IH[of acc] Cons.IH[of "acc @ [the (get_book_info catalog name)]"]
      by (auto simp: get_book_info_name split: option.splits)
  qed
qed

lemma gather_liked_first:
  "gather_liked catalog [] names acc =
     first_by_name acc
       (concat (map (\<lambda>name. case get_book_info catalog name of None \<Rightarrow> [] | Some b \<Rightarrow> [b])
                  names))"
proof (induction names arbitrary: acc)
  case Nil
  then show ?case by simp
next
  case (Cons name names)
  show ?case
  proof (cases "get_book_info catalog name")
    case None
    then show ?thesis using Cons.IH[of acc] by simp
  next
    case (Some info)
    then have "book_name info = name" by (rule get_book_info_name)
    then show ?thesis
      using Some Cons.IH[of acc] Cons.IH[of "acc @ [info]"] by auto
  qed
qed

lemma newest_likes_eq: "get_user_interactions coll u Like 100 = newest_likes coll u"
  by (simp add: get_user_interactions_def newest_likes_def)

lemma liked_catalog_books_eq:
  "liked_books_of w [] u = liked_catalog_books w u"
  by (simp add: liked_books_of_def liked_catalog_books_def sort_by_popularity_def
        gather_liked_first newest_likes_eq get_book_info_def comp_def)

lemma liked_books_of_filter:
  "liked_books_of w interacted u =
     filter (\<lambda>b. book_name b \<notin> set interacted) (liked_catalog_books w u)"
proof -
  have "liked_books_of w interacted u =
          filter (\<lambda>b. book_name b \<notin> set interacted) (liked_books_of w [] u)"
    using gather_liked_filter[of "rw_books w" interacted _ "[]"]
    by (simp add: liked_books_of_def sort_by_popularity_def filter_sort)
  then show ?thesis by (simp add: liked_catalog_books_eq)
qed

lemma has_interacted_iff:
  "has_interacted coll user name \<longleftrightarrow> name \<in> set (get_user_interacted_book_names coll user)"
  by (auto simp: has_interacted_def get_user_interacted_book_names_def list_ex_iff)

lemma contribution_eq:
  "filter (\<lambda>b. meets_language_requirement py b
                 (get_user_languages py (users_languages (rw_store w)) user))
     (liked_books_of w (get_user_interacted_book_names (interactions (rw_store w)) user) u) =
   contribution py w user u"
  by (auto simp: liked_books_of_filter contribution_def eligible_def has_interacted_iff
        intro: filter_cong)

lemma similar_enough_eq: "kept_similar_users ids scores = similar_enough ids scores"
proof -
  have "(\<lambda>(uid, score). \<not> score < 1 / 2) = (\<lambda>p :: user_id \<times> real. 1 / 2 \<le> snd p)"
    by (auto simp: fun_eq_iff)
  then show ?thesis by (simp add: kept_similar_users_def kept_pairs_def similar_enough_def)
qed

lemma cascade_is_spec:
  "py_prefix n
     (cascade py w n (get_user_interacted_book_names (interactions (rw_store w)) user)
        (get_user_languages py (users_languages (rw_store w)) user)
        (kept_similar_users ids scores) []) =
   cascade_spec py w user n ids scores"
  by (simp add: cascade_take contribution_eq py_prefix_def cascade_spec_def similar_enough_eq)

lemma ubcf_on_miss:
  assumes "cache_miss w user" and "ensure_model outcome w user = (ready, w2)"
  shows "fst (get_enhanced_ubcf_recommendations py outcome w user n) =
           (if \<not> ready then []
            else (case rw_similarities w2 user of
                    None \<Rightarrow> []
                  | Some (ids, scores) \<Rightarrow> cascade_spec py w2 user n ids scores))"
    and "rw_training_runs (snd (get_enhanced_ubcf_recommendations py outcome w user n)) =
           rw_training_runs w2"
proof -
  have c: "rec_cache (rw_store w) user = None \<or> rec_cache (rw_store w) user = Some []"
    using assms(1) by (auto simp: cache_miss_def split: option.splits)
  show "fst (get_enhanced_ubcf_recommendations py outcome w user n) =
           (if \<not> ready then []
            else (case rw_similarities w2 user of
                    None \<Rightarrow> []
                  | Some (ids, scores) \<Rightarrow> cascade_spec py w2 user n ids scores))"
    using c assms(2)
    by (auto simp: get_enhanced_ubcf_recommendations_def Let_def cascade_is_spec
          split: option.splits)
  show "rw_training_runs (snd (get_enhanced_ubcf_recommendations py outcome w user n)) =
           rw_training_runs w2"
    using c assms(2)
    by (auto simp: get_enhanced_ubcf_recommendations_def Let_def split: option.splits)
qed

subsection \<open>What the cascade contains\<close>














subsection \<open>The order of the stored entries\<close>




subsection \<open>The scenario\<close>


lemma scenario_miss: "cache_miss scenario_world u"
  by (simp add: cache_miss_def scenario_world_def empty_store_def)









text \<open>
  Claim C9, as amended.  On a cache miss, a retraining run is started exactly when the
  target user is not in the user mapping of the model (after the attempt to load
  it), has at least one interaction, and the training script exists; the result is
  empty when that run fails or leaves no model to load.  A user who is not in the
  mapping and has no interactions, or for whom the script is missing, gets the
  empty result without any training run.  A user who is in the mapping gets no
  training run, and the empty result when there is no similarity entry for him.
\<close>

theorem cold_start_retrain:
  assumes "cache_miss w user"
  shows "(case get_enhanced_ubcf_recommendations py outcome w user n of
            (recs, w') \<Rightarrow>
              (user \<notin> rw_user_mapping (after_load w) \<and>
               get_user_interaction_count (interactions (rw_store w)) user > 0 \<and>
               rw_script_exists w \<longrightarrow>
                 rw_training_runs w' = rw_training_runs w + 1 \<and>
                 (returncode outcome \<noteq> 0 \<or> files_after outcome = None \<longrightarrow> recs = [])) \<and>
              (user \<notin> rw_user_mapping (after_load w) \<and>
               get_user_interaction_count (interactions (rw_store w)) user = 0 \<longrightarrow>
                 rw_training_runs w' = rw_training_runs w \<and> recs = []) \<and>
              (user \<notin> rw_user_mapping (after_load w) \<and> \<not> rw_script_exists w \<longrightarrow>
                 rw_training_runs w' = rw_training_runs w \<and> recs = []) \<and>
              (user \<in> rw_user_mapping (after_load w) \<longrightarrow>
                 rw_training_runs w' = rw_training_runs w \<and>
                 (rw_similarities w user = None \<longrightarrow> recs = [])))"
proof -
  obtain ready w2 where e: "ensure_model outcome w user = (ready, w2)"
    by (cases "ensure_model outcome w user") auto
  have al: "rw_training_runs (after_load w) = rw_training_runs w"
    "interactions (rw_store (after_load w)) = interactions (rw_store w)"
    "rw_script_exists (after_load w) = rw_script_exists w"
    "rw_similarities (after_load w) = rw_similarities w"
    by (auto simp: after_load_def load_model_def split: option.splits)
  note r = ubcf_on_miss[OF assms e, of py n]
  show ?thesis
    using e r al
    by (cases "get_enhanced_ubcf_recommendations py outcome w user n")
       (auto simp: ensure_model_def retrain_for_new_user_def load_model_def Let_def
          split: if_splits option.splits)
qed

text \<open>
  The claim as stated fails: user 7 has no interactions and no similarity entry, and
  user 1 is known to the model but has no similarity entry; both get the empty
  result, and no training run has been started.
\<close>

theorem cold_start_retrain_counterexample:
  "cache_miss scenario_world 7 \<and>
   get_user_interaction_count (interactions (rw_store scenario_world)) 7 = 0 \<and>
   rw_similarities scenario_world 7 = None \<and>
   fst (get_enhanced_ubcf_recommendations ascii_lib good_outcome scenario_world 7 3) = [] \<and>
   rw_training_runs (snd (get_enhanced_ubcf_recommendations ascii_lib good_outcome scenario_world 7 3)) =
     rw_training_runs scenario_world \<and>
   cache_miss scenario_world 1 \<and>
   rw_similarities scenario_world 1 = None \<and>
   fst (get_enhanced_ubcf_recommendations ascii_lib good_outcome scenario_world 1 3) = [] \<and>
   rw_training_runs (snd (get_enhanced_ubcf_recommendations ascii_lib good_outcome scenario_world 1 3)) =
     rw_training_runs scenario_world"
  by code_simp

theorem cold_start_retrain_witness:
  "cache_miss newcomer_world 3 \<and>
   3 \<notin> rw_user_mapping (after_load newcomer_world) \<and>
   get_user_interaction_count (interactions (rw_store newcomer_world)) 3 > 0 \<and>
   rw_script_exists newcomer_world \<and>
   rw_training_runs (snd (get_enhanced_ubcf_recommendations ascii_lib good_outcome newcomer_world 3 3)) =
     rw_training_runs newcomer_world + 1 \<and>
   cache_miss (newcomer_world\<lparr>rw_script_exists := False\<rparr>) 3 \<and>
   3 \<notin> rw_user_mapping (after_load (newcomer_world\<lparr>rw_script_exists := False\<rparr>)) \<and>
   \<not> rw_script_exists (newcomer_world\<lparr>rw_script_exists := False\<rparr>) \<and>
   rw_training_runs (snd (get_enhanced_ubcf_recommendations ascii_lib good_outcome
       (newcomer_world\<lparr>rw_script_exists := False\<rparr>) 3 3)) =
     rw_training_runs (newcomer_world\<lparr>rw_script_exists := False\<rparr>) \<and>
   cache_miss scenario_world 7 \<and>
   7 \<notin> rw_user_mapping (after_load scenario_world) \<and>
   get_user_interaction_count (interactions (rw_store scenario_world)) 7 = 0 \<and>
   rw_training_runs (snd (get_enhanced_ubcf_recommendations ascii_lib good_outcome scenario_world 7 3)) =
     rw_training_runs scenario_world \<and>
   fst (get_enhanced_ubcf_recommendations ascii_lib good_outcome scenario_world 7 3) = [] \<and>
   1 \<in> rw_user_mapping (after_load scenario_world) \<and>
   rw_similarities scenario_world 1 = None \<and>
   fst (get_enhanced_ubcf_recommendations ascii_lib good_outcome scenario_world 1 3) = []"
proof -
  have m: "cache_miss newcomer_world 3"
    by (simp add: cache_miss_def newcomer_world_def scenario_world_def empty_store_def)
  have a: "3 \<notin> rw_user_mapping (after_load newcomer_world)"
    "get_user_interaction_count (interactions (rw_store newcomer_world)) 3 > 0"
    "rw_script_exists newcomer_world"
    by (simp_all add: after_load_def newcomer_world_def scenario_world_def empty_store_def
          get_user_interaction_count_def scenario_like_def)
  have b: "7 \<notin> rw_user_mapping (after_load scenario_world)"
    "get_user_interaction_count (interactions (rw_store scenario_world)) 7 = 0"
    "1 \<in> rw_user_mapping (after_load scenario_world)"
    "rw_similarities scenario_world 1 = None"
    by (simp_all add: after_load_def scenario_world_def empty_store_def
          get_user_interaction_count_def scenario_like_def)
  let ?nw = "newcomer_world\<lparr>rw_script_exists := False\<rparr>"
  have m': "cache_miss ?nw 3"
    by (simp add: cache_miss_def newcomer_world_def scenario_world_def empty_store_def)
  have a': "3 \<notin> rw_user_mapping (after_load ?nw)" "\<not> rw_script_exists ?nw"
    "rw_training_runs ?nw = rw_training_runs newcomer_world"
    by (simp_all add: after_load_def newcomer_world_def scenario_world_def)
  from cold_start_retrain[where py = ascii_lib and outcome = good_outcome and n = 3, OF m]
       cold_start_retrain[where py = ascii_lib and outcome = good_outcome and n = 3, OF m']
       cold_start_retrain[where py = ascii_lib and outcome = good_outcome and n = 3, OF scenario_miss[of 7]]
       cold_start_retrain[where py = ascii_lib and outcome = good_outcome and n = 3, OF scenario_miss[of 1]]
  show ?thesis
    using m a m' a' b scenario_miss by (auto split: prod.splits)
qed


section \<open>Properties of the similarity query\<close>

lemma retrieved_id:
  "get_books_info_by_ids catalog ids bid = Some b \<Longrightarrow> book_id b = bid"
  unfolding get_books_info_by_ids_def
  by (induction catalog) (auto split: if_splits)

lemma entry_ok_mono:
  "entry_ok all_ids base interacted found entry \<Longrightarrow>
   entry_ok all_ids base interacted (p # found) entry"
  by (auto simp: entry_ok_def)

lemma build_recommendations_sound:
  assumes "build_recommendations all_ids base (get_books_info_by_ids catalog ids) interacted
             limit found recs = Some out"
    and "list_all (entry_ok all_ids base interacted (done @ found)) recs"
  shows "list_all (entry_ok all_ids base interacted (done @ found)) out"
  using assms
proof (induction found arbitrary: recs "done")
  case Nil
  then show ?case by simp
next
  case (Cons p found)
  obtain i score where p: "p = (i, score)" by (cases p) auto
  have step: "list_all (entry_ok all_ids base interacted ((done @ [p]) @ found)) out"
    if "build_recommendations all_ids base (get_books_info_by_ids catalog ids) interacted
             limit found recs' = Some out"
      and "list_all (entry_ok all_ids base interacted (done @ p # found)) recs'" for recs'
    using Cons.IH[of recs' "done @ [p]"] that by simp
  show ?case
  proof (cases "i \<ge> int (length all_ids)")
    case True
    then show ?thesis using Cons.prems p step[of recs] by simp
  next
    case False
    then obtain bid where bid: "py_index all_ids i = Some bid"
      using Cons.prems(1) p by (auto split: option.splits)
    show ?thesis
    proof (cases "bid = base")
      case True
      then show ?thesis using Cons.prems p False bid step[of recs] by simp
    next
      case nb: False
      then obtain b where b: "get_books_info_by_ids catalog ids bid = Some b"
        using Cons.prems(1) p False bid by (auto split: option.splits)
      have bi: "book_id b = bid" using retrieved_id[OF b] .
      show ?thesis
      proof (cases "book_name b \<in> set interacted")
        case True
        then show ?thesis using Cons.prems p False bid nb b step[of recs] by simp
      next
        case ni: False
        have e: "entry_ok all_ids base interacted (done @ p # found) (b, score)"
          using False bid nb ni bi p by (auto simp: entry_ok_def)
        have all: "list_all (entry_ok all_ids base interacted (done @ p # found))
                     (recs @ [(b, score)])"
          using Cons.prems(2) e by simp
        show ?thesis
        proof (cases "int (length (recs @ [(b, score)])) \<ge> limit")
          case True
          then have "out = recs @ [(b, score)]"
            using Cons.prems(1) p False bid nb b ni by (simp add: Let_def)
          then show ?thesis using all by simp
        next
          case F: False
          then have "build_recommendations all_ids base (get_books_info_by_ids catalog ids)
                       interacted limit found (recs @ [(b, score)]) = Some out"
            using Cons.prems(1) p False bid nb b ni by (simp add: Let_def)
          then show ?thesis using step[OF _ all] by simp
        qed
      qed
    qed
  qed
qed

lemma build_recommendations_length:
  assumes "build_recommendations all_ids base retrieved interacted limit found recs = Some out"
    and "int (length recs) < limit"
  shows "int (length out) \<le> limit"
  using assms
proof (induction found arbitrary: recs)
  case Nil
  then show ?case by simp
next
  case (Cons p found)
  obtain i score where p: "p = (i, score)" by (cases p) auto
  show ?case
    using Cons.prems Cons.IH p
    by (auto simp: Let_def split: if_splits option.splits)
qed


lemma query_index_sound:
  "list_all (\<lambda>entry. book_name (fst entry) \<notin>
               set (get_user_interacted_book_names (env_interactions env) user))
     (query_index env e user limit base_book_id base_lang base_vector)"
proof -
  have ok: "list_all (\<lambda>entry. book_name (fst entry) \<notin> set interacted) out"
    if "build_recommendations all_ids base (get_books_info_by_ids catalog ids) interacted
             limit found [] = Some out" for all_ids base catalog ids interacted found out
  proof -
    have "list_all (entry_ok all_ids base interacted ([] @ found)) out"
      using build_recommendations_sound[OF that, of "[]"] by simp
    then show ?thesis by (auto simp: list_all_iff entry_ok_def)
  qed
  show ?thesis
    unfolding query_index_def Let_def
    by (simp split: option.splits) (blast intro: ok)
qed

lemma query_index_length:
  "limit \<ge> 1 \<Longrightarrow>
   int (length (query_index env e user limit base_book_id base_lang base_vector)) \<le> limit"
  unfolding query_index_def Let_def
  by (auto split: option.splits dest!: build_recommendations_length)

lemma similar_books_sound:
  "list_all (\<lambda>entry. book_name (fst entry) \<notin>
               set (get_user_interacted_book_names (env_interactions env) user))
     (similar_books env e user limit alternative pick)"
  unfolding similar_books_def
  by (simp add: query_index_sound split: option.splits)

lemma similar_books_length:
  "limit \<ge> 1 \<Longrightarrow> int (length (similar_books env e user limit alternative pick)) \<le> limit"
  unfolding similar_books_def
  by (simp add: query_index_length split: option.splits)

text \<open>
  Claim C7.  The query asks the index for \<open>limit\<close> plus the number of books the user
  has interacted with, and no entry of the answer is a book the user has interacted
  with (\<open>similar_books_sound\<close>); for \<open>limit \<ge> 1\<close> the answer has at most \<open>limit\<close> entries
  (\<open>similar_books_length\<close>).  But the test on a position is \<open>i < len(all_ids)\<close> only.
  In the small index the search for three neighbours returns the positions 0, 1 and
  \<open>-1\<close>, the last one being FAISS's mark for a missing neighbour; position \<open>-1\<close> is not
  dropped, Python reads \<open>all_ids[-1]\<close>, the last identifier, and the book B is in the
  answer a second time, with the score of the missing neighbour.  And with \<open>limit = 0\<close>
  the answer has one entry, the count being tested only after an entry is appended.
\<close>

theorem similar_books_negative_position:
  "map (book_name \<circ> fst)
     (fst (get_similar_books_for_user small_env small_engine 0 2 False 0)) = [''B'', ''B''] \<and>
   map snd (fst (get_similar_books_for_user small_env small_engine 0 2 False 0))
     = [8 / 10, - 1] \<and>
   env_search small_env ''english'' () 3 = Some [(0, 1), (1, 8 / 10), (- 1, - 1)] \<and>
   map (book_name \<circ> fst)
     (fst (get_similar_books_for_user small_env2 small_engine 0 0 False 0)) = [''B'']"
  by code_simp


section \<open>Properties of the streaming training\<close>










end
